theory Spec2Isabelle
  imports Complex_Main "HOL-Library.Word" "HOL-Library.Signed_Division"
begin

section \<open>The solar panel data logger: SolarFinalVer2.ino and solardatalog.ino\<close>

text \<open>
  Both sketches run on an Arduino Uno (AVR): \<open>int\<close> is 16 bits wide, \<open>unsigned long\<close> is
  32 bits, \<open>uint8_t\<close> is 8 bits. A sketch never returns: \<open>setup()\<close> runs once after
  power-up and \<open>loop()\<close> is called again and again. The model passes the globals of the
  sketch and the contents of the SD card along as a state, records every call into a
  peripheral in a trace, and takes what the peripherals answer as inputs.
\<close>

subsection \<open>Machine types\<close>

type_synonym int16 = "16 word"   \<comment> \<open>\<open>int\<close>; read as signed by \<open>sint\<close>\<close>
type_synonym uint16 = "16 word"
type_synonym uint8 = "8 word"
type_synonym ulong = "32 word"   \<comment> \<open>\<open>unsigned long\<close>, the argument of \<open>delay\<close>\<close>

text \<open>\<open>a / b\<close> on \<open>int\<close> truncates towards zero.\<close>

definition int16_div :: "int16 \<Rightarrow> int16 \<Rightarrow> int16" where
  "int16_div a b = word_of_int (sint a sdiv sint b)"

text \<open>The conversion of an \<open>int\<close> argument to \<open>unsigned long\<close> extends the sign.\<close>

definition to_ulong :: "int16 \<Rightarrow> ulong" where
  "to_ulong a = scast a"

text \<open>
  The arithmetic of \<open>float\<close> and the text that \<open>Print::print(float)\<close> yields belong to the
  board and to the Arduino core; the model takes them as parameters.
\<close>

record 'f float_ops =
  fzero :: 'f
  fadd :: "'f \<Rightarrow> 'f \<Rightarrow> 'f"
  fdiv :: "'f \<Rightarrow> 'f \<Rightarrow> 'f"
  float_of_int :: "int \<Rightarrow> 'f"
  print_float :: "'f \<Rightarrow> string"

subsection \<open>Decimal text\<close>

definition digit_char :: "nat \<Rightarrow> char" where
  "digit_char d = char_of (48 + d)"

text \<open>\<open>String(unsigned char)\<close> of the Arduino core: the decimal digits of the value.\<close>

fun utoa :: "nat \<Rightarrow> string" where
  "utoa n = (if n < 10 then [digit_char n] else utoa (n div 10) @ [digit_char (n mod 10)])"

declare utoa.simps [simp del]

definition String_of :: "uint8 \<Rightarrow> string" where
  "String_of v = utoa (unat v)"

definition CRLF :: string where
  "CRLF = [CHR 0x0D, CHR 0x0A]"

subsection \<open>Peripherals\<close>

record DateTime =
  year :: uint16
  month :: uint8
  day :: uint8
  hour :: uint8
  minute :: uint8
  second :: uint8

datatype event =
    Ev_pinMode nat
  | Ev_Serial_begin nat
  | Ev_Wire_begin
  | Ev_Serial_print string
  | Ev_Serial_println string
  | Ev_SD_open string
  | Ev_File_print string string
  | Ev_File_println string string
  | Ev_File_close string
  | Ev_digitalWrite nat bool
  | Ev_delay nat
  | Ev_rtc_adjust DateTime

text \<open>What the peripherals answer during \<open>setup()\<close>, and during one call of \<open>loop()\<close>.\<close>

record setup_in =
  rtc_begin :: bool
  rtc_isrunning :: bool
  SD_begin :: bool
  ina219_init :: bool
  rtc_now :: DateTime
  build_time :: DateTime   \<comment> \<open>\<open>DateTime(F(__DATE__), F(__TIME__))\<close>\<close>

record 'f loop_in =
  loop_ina219_init :: bool
  loop_SD_begin :: bool
  getCurrent_mA :: 'f
  loop_rtc_now :: DateTime

text \<open>The user parameters at the top of the sketch.\<close>

record config =
  frequency :: int16
  averaged :: bool
  datapoints :: int16

text \<open>
  The globals of the sketch (\<open>filename\<close>, \<open>file\<close>, \<open>averagedcurrent_mA\<close>, \<open>counter\<close>), the
  files on the card (name to bytes), the trace of calls into the peripherals, and whether
  the program sits in one of its \<open>while (1);\<close> loops.
\<close>

record 'f state =
  filename :: string
  file_handle :: "string option"   \<comment> \<open>the global \<open>file\<close>: the name of the open file\<close>
  averagedcurrent_mA :: 'f
  counter :: int16
  sd :: "string \<rightharpoonup> string"
  trace :: "event list"
  halted :: bool

definition LEDPIN :: nat where
  "LEDPIN = 7"

definition boot :: "'f float_ops \<Rightarrow> (string \<rightharpoonup> string) \<Rightarrow> event list \<Rightarrow> 'f state" where
  "boot fl disk tr =
     \<lparr>filename = ''YYYYMMDD.csv'', file_handle = None, averagedcurrent_mA = fzero fl, counter = 0,
      sd = disk, trace = tr, halted = False\<rparr>"

definition emit :: "event \<Rightarrow> 'f state \<Rightarrow> 'f state" where
  "emit e s = s\<lparr>trace := trace s @ [e]\<rparr>"

text \<open>\<open>while (1);\<close> and \<open>for (;;);\<close>: nothing after it runs.\<close>

definition halt :: "'f state \<Rightarrow> 'f state" where
  "halt s = s\<lparr>halted := True\<rparr>"

text \<open>Statements in sequence; a statement behind a halt is never reached.\<close>

fun seq :: "('f state \<Rightarrow> 'f state) list \<Rightarrow> 'f state \<Rightarrow> 'f state" where
  "seq [] s = s"
| "seq (f # fs) s = (if halted s then s else seq fs (f s))"

definition Serial_print :: "string \<Rightarrow> 'f state \<Rightarrow> 'f state" where
  "Serial_print str = emit (Ev_Serial_print str)"

definition Serial_println :: "string \<Rightarrow> 'f state \<Rightarrow> 'f state" where
  "Serial_println str = emit (Ev_Serial_println str)"

definition digitalWrite :: "nat \<Rightarrow> bool \<Rightarrow> 'f state \<Rightarrow> 'f state" where
  "digitalWrite pin v = emit (Ev_digitalWrite pin v)"

definition delay :: "ulong \<Rightarrow> 'f state \<Rightarrow> 'f state" where
  "delay ms = emit (Ev_delay (unat ms))"

definition rtc_adjust :: "DateTime \<Rightarrow> 'f state \<Rightarrow> 'f state" where
  "rtc_adjust t = emit (Ev_rtc_adjust t)"

definition contents :: "(string \<rightharpoonup> string) \<Rightarrow> string \<Rightarrow> string" where
  "contents disk n = (case disk n of None \<Rightarrow> [] | Some c \<Rightarrow> c)"

text \<open>
  \<open>SD.open(name, FILE_WRITE)\<close>: the file is created when it does not exist, and what is
  written goes to its end.
\<close>

definition SD_open :: "string \<Rightarrow> 'f state \<Rightarrow> 'f state" where
  "SD_open n s = emit (Ev_SD_open n) (s\<lparr>file_handle := Some n, sd := (sd s)(n \<mapsto> contents (sd s) n)\<rparr>)"

definition file_size :: "'f state \<Rightarrow> nat" where
  "file_size s = (case file_handle s of None \<Rightarrow> 0 | Some n \<Rightarrow> length (contents (sd s) n))"

definition file_print :: "string \<Rightarrow> 'f state \<Rightarrow> 'f state" where
  "file_print str s =
     (case file_handle s of
        None \<Rightarrow> s
      | Some n \<Rightarrow> emit (Ev_File_print n str) (s\<lparr>sd := (sd s)(n \<mapsto> contents (sd s) n @ str)\<rparr>))"

definition file_println :: "string \<Rightarrow> 'f state \<Rightarrow> 'f state" where
  "file_println str s =
     (case file_handle s of
        None \<Rightarrow> s
      | Some n \<Rightarrow>
          emit (Ev_File_println n str) (s\<lparr>sd := (sd s)(n \<mapsto> contents (sd s) n @ str @ CRLF)\<rparr>))"

definition file_close :: "'f state \<Rightarrow> 'f state" where
  "file_close s =
     (case file_handle s of None \<Rightarrow> s | Some n \<Rightarrow> emit (Ev_File_close n) (s\<lparr>file_handle := None\<rparr>))"

subsection \<open>setup(): the blocks shared by both sketches\<close>

definition header :: string where
  "header = ''Time, Current (mA)''"

text \<open>\<open>filename[i] = '0' + ...\<close>: the sum is cut to the eight bits of a \<open>char\<close>.\<close>

definition to_char :: "16 word \<Rightarrow> char" where
  "to_char w = char_of (unat w)"

text \<open>Generating filename (SolarFinalVer2.ino 82-90, solardatalog.ino 96-104).\<close>

definition dated_name :: "DateTime \<Rightarrow> string \<Rightarrow> string" where
  "dated_name start_time fn =
     (let y = year start_time;
          m = (ucast (month start_time) :: 16 word);
          d = (ucast (day start_time) :: 16 word);
          f0 = fn[0 := to_char (48 + y div 1000)];
          f1 = f0[1 := to_char (48 + (y div 100) mod 10)];
          f2 = f1[2 := to_char (48 + (y div 10) mod 10)];
          f3 = f2[3 := to_char (48 + y mod 10)];
          f4 = f3[4 := to_char (48 + (m div 10) mod 10)];
          f5 = f4[5 := to_char (48 + m mod 10)];
          f6 = f5[6 := to_char (48 + (d div 10) mod 10)];
          f7 = f6[7 := to_char (48 + d mod 10)]
      in f7)"

definition generate_filename :: "DateTime \<Rightarrow> 'f state \<Rightarrow> 'f state" where
  "generate_filename start_time s = s\<lparr>filename := dated_name start_time (filename s)\<rparr>"

text \<open>
  Opening file and listing the headers (SolarFinalVer2.ino 93-98, solardatalog.ino
  107-112).
\<close>

definition write_header :: "'f state \<Rightarrow> 'f state" where
  "write_header =
     seq [(\<lambda>s. SD_open (filename s) s),
          (\<lambda>s. if file_size s = 0 then file_println header s else s),
          file_close,
          Serial_println ''SD card OK!'']"

definition end_of_setup :: "'f state \<Rightarrow> 'f state" where
  "end_of_setup =
     seq [Serial_println ''All checks OK!'',
          Serial_print ''Data will be stored into '',
          (\<lambda>s. Serial_println (filename s) s),
          Serial_println []]"

definition begin_of_setup :: "'f state \<Rightarrow> 'f state" where
  "begin_of_setup = seq [emit (Ev_pinMode LEDPIN), emit (Ev_Serial_begin 9600), emit Ev_Wire_begin]"

subsection \<open>SolarFinalVer2.ino\<close>

definition setup_v2 :: "setup_in \<Rightarrow> 'f state \<Rightarrow> 'f state" where
  "setup_v2 hw =
     seq [begin_of_setup,
          (if \<not> rtc_begin hw
           then seq [Serial_println ''Error : RTC not detected!'',
                     Serial_println ''Attach the RTC, then push the reset button'',
                     halt]
           else Serial_println ''RTC detected!''),
          (if \<not> rtc_isrunning hw
           then seq [Serial_println ''Error : RTC lost power!'',
                     Serial_println ''RTC will be set to when this sketch was compiled'',
                     rtc_adjust (build_time hw)]
           else Serial_println ''RTC OK!''),
          (if \<not> SD_begin hw
           then seq [Serial_println ''Error : SD card not detected!'',
                     Serial_println ''Attach the SD card, then push the reset button'',
                     halt]
           else Serial_println ''SD card detected!''),
          generate_filename (rtc_now hw),
          write_header,
          (if \<not> ina219_init hw
           then seq [Serial_println ''Error : INA219 not connected!'',
                     Serial_println ''Connect the INA219, then push the reset button'',
                     halt]
           else Serial_println ''INA219 detected!''),
          end_of_setup]"

definition StoreData :: "'f float_ops \<Rightarrow> 'f loop_in \<Rightarrow> 'f \<Rightarrow> 'f state \<Rightarrow> 'f state" where
  "StoreData fl inp currentvalue =
     (let now = loop_rtc_now inp;
          currtime = String_of (hour now);
          currtime = currtime @ '':'';
          currtime = currtime @ String_of (minute now);
          currtime = currtime @ '':'';
          currtime = currtime @ String_of (second now)
      in seq [Serial_print ''At '', Serial_println currtime,
              Serial_print ''Current[mA]: '', Serial_println (print_float fl currentvalue),
              file_print currtime,
              file_print '','',
              file_print (print_float fl currentvalue),
              file_print '','',
              Serial_println ''Data stored!'',
              Serial_println [],
              file_println []])"

definition ReadData_v2 :: "'f float_ops \<Rightarrow> config \<Rightarrow> 'f loop_in \<Rightarrow> 'f state \<Rightarrow> 'f state" where
  "ReadData_v2 fl cfg inp s =
     (let current_mA = getCurrent_mA inp in
      if averaged cfg then
        (let s1 = s\<lparr>averagedcurrent_mA := fadd fl (averagedcurrent_mA s) current_mA\<rparr>;
             s2 = s1\<lparr>counter := counter s1 + 1\<rparr>
         in if counter s2 = datapoints cfg then
              (let current_mA = fdiv fl (averagedcurrent_mA s2)
                                  (float_of_int fl (sint (datapoints cfg)))
               in seq [StoreData fl inp current_mA, (\<lambda>t. t\<lparr>counter := 0\<rparr>)] s2)
            else s2)
      else StoreData fl inp current_mA s)"

definition loop_v2 :: "'f float_ops \<Rightarrow> config \<Rightarrow> 'f loop_in \<Rightarrow> 'f state \<Rightarrow> 'f state" where
  "loop_v2 fl cfg inp =
     seq [digitalWrite LEDPIN True,
          (\<lambda>s. SD_open (filename s) s),
          ReadData_v2 fl cfg inp,
          file_close,
          delay (to_ulong (frequency cfg * 500)),
          digitalWrite LEDPIN False,
          delay (to_ulong (frequency cfg * 500))]"

subsection \<open>solardatalog.ino\<close>

definition setup_dl :: "setup_in \<Rightarrow> 'f state \<Rightarrow> 'f state" where
  "setup_dl hw =
     seq [begin_of_setup,
          (if \<not> ina219_init hw
           then seq [Serial_println ''Error : INA219 not connected!'',
                     Serial_println ''Connect the INA219, then push the reset button'',
                     digitalWrite LEDPIN True,
                     halt]
           else Serial_println ''INA219 detected!''),
          (if \<not> rtc_begin hw
           then seq [Serial_println ''Error : RTC not detected!'',
                     Serial_println ''Attach the RTC, then push the reset button'',
                     digitalWrite LEDPIN True,
                     halt]
           else Serial_println ''RTC detected!''),
          (if \<not> rtc_isrunning hw
           then seq [Serial_println ''Error : RTC lost power!'',
                     Serial_println ''RTC will be set to when this sketch was compiled'',
                     rtc_adjust (build_time hw),
                     digitalWrite LEDPIN True,
                     halt]
           else Serial_println ''RTC OK!''),
          (if \<not> SD_begin hw
           then seq [Serial_println ''Error : SD card not detected!'',
                     Serial_println ''Attach the SD card, then push the reset button'',
                     digitalWrite LEDPIN True,
                     halt]
           else Serial_println ''SD card detected!''),
          generate_filename (rtc_now hw),
          write_header,
          end_of_setup]"

definition ReadData_dl :: "'f float_ops \<Rightarrow> 'f loop_in \<Rightarrow> 'f state \<Rightarrow> 'f state" where
  "ReadData_dl fl inp s = (let current_mA = getCurrent_mA inp in StoreData fl inp current_mA s)"

text \<open>
  \<open>for (int i = 1; i <= frequency/2; i++)\<close>. The counter \<open>i\<close> stays below 16385, so it is
  an \<open>int\<close> here; the body runs only when \<open>frequency\<close> is at least 2, so
  \<open>frequency/frequency\<close> never divides by zero where it is evaluated.
\<close>

function blink :: "int16 \<Rightarrow> int \<Rightarrow> 'f state \<Rightarrow> 'f state" where
  "blink freq i s =
     (if i \<le> sint (int16_div freq 2) then
        blink freq (i + 1)
          (seq [digitalWrite LEDPIN True,
                delay (to_ulong (int16_div freq freq * 1000)),
                digitalWrite LEDPIN False,
                delay (to_ulong (int16_div freq freq * 1000))] s)
      else s)"
  by pat_completeness auto
termination
  by (relation "measure (\<lambda>(freq, i, s). nat (sint (int16_div freq 2) + 1 - i))") auto

declare blink.simps [simp del]

definition loop_dl :: "'f float_ops \<Rightarrow> config \<Rightarrow> 'f loop_in \<Rightarrow> 'f state \<Rightarrow> 'f state" where
  "loop_dl fl cfg inp =
     seq [(if \<not> loop_ina219_init inp
           then seq [Serial_println
                       ''Error : INA219 not connected! Connect the INA219, then push the reset button'',
                     digitalWrite LEDPIN True,
                     halt]
           else (\<lambda>s. s)),
          (if \<not> loop_SD_begin inp
           then seq [Serial_println
                       ''Error : SD card not detected! Attach the SD card, then push the reset button'',
                     digitalWrite LEDPIN True,
                     halt]
           else (\<lambda>s. s)),
          (\<lambda>s. SD_open (filename s) s),
          ReadData_dl fl inp,
          file_close,
          blink (frequency cfg) 1]"

subsection \<open>A power cycle\<close>

datatype sketch = SolarFinalVer2 | solardatalog

definition sketch_setup :: "sketch \<Rightarrow> setup_in \<Rightarrow> 'f state \<Rightarrow> 'f state" where
  "sketch_setup sk hw = (case sk of SolarFinalVer2 \<Rightarrow> setup_v2 hw | solardatalog \<Rightarrow> setup_dl hw)"

definition sketch_loop :: "sketch \<Rightarrow> 'f float_ops \<Rightarrow> config \<Rightarrow> 'f loop_in \<Rightarrow> 'f state \<Rightarrow> 'f state" where
  "sketch_loop sk fl cfg inp =
     (case sk of SolarFinalVer2 \<Rightarrow> loop_v2 fl cfg inp | solardatalog \<Rightarrow> loop_dl fl cfg inp)"

text \<open>
  \<open>loop()\<close> is called once for each element of the inputs; a halted program stays as it
  is.
\<close>

fun run_loop ::
  "sketch \<Rightarrow> 'f float_ops \<Rightarrow> config \<Rightarrow> 'f loop_in list \<Rightarrow> 'f state \<Rightarrow> 'f state" where
  "run_loop sk fl cfg [] s = s"
| "run_loop sk fl cfg (inp # inps) s =
     run_loop sk fl cfg inps (if halted s then s else sketch_loop sk fl cfg inp s)"

definition power_cycle ::
  "sketch \<Rightarrow> 'f float_ops \<Rightarrow> config \<Rightarrow> setup_in \<Rightarrow> 'f loop_in list \<Rightarrow>
   (string \<rightharpoonup> string) \<Rightarrow> event list \<Rightarrow> 'f state" where
  "power_cycle sk fl cfg hw inps disk tr =
     run_loop sk fl cfg inps (sketch_setup sk hw (boot fl disk tr))"

subsection \<open>Notions of the specification\<close>




text \<open>
  The discipline of the file handle along a trace: a file is opened only while none is
  open, written and closed only while one is open, and the program waits only while none
  is open. The result is whether a file is open at the end, or \<open>None\<close> when the trace
  breaks the discipline.
\<close>

fun walk :: "bool \<Rightarrow> event list \<Rightarrow> bool option" where
  "walk opn [] = Some opn"
| "walk opn (Ev_SD_open n # es) = (if opn then None else walk True es)"
| "walk opn (Ev_File_print n str # es) = (if opn then walk opn es else None)"
| "walk opn (Ev_File_println n str # es) = (if opn then walk opn es else None)"
| "walk opn (Ev_File_close n # es) = (if opn then walk False es else None)"
| "walk opn (Ev_delay ms # es) = (if opn then None else walk opn es)"
| "walk opn (e # es) = walk opn es"

text \<open>The milliseconds of all the waits of a trace.\<close>

fun delay_ms :: "event \<Rightarrow> nat" where
  "delay_ms (Ev_delay ms) = ms"
| "delay_ms e = 0"

definition delay_total :: "event list \<Rightarrow> nat" where
  "delay_total tr = sum_list (map delay_ms tr)"

text \<open>How often the header line was written to the file of a name.\<close>

definition header_writes :: "string \<Rightarrow> event list \<Rightarrow> nat" where
  "header_writes n tr = length (filter (\<lambda>e. e = Ev_File_println n header) tr)"

fun is_File_print :: "event \<Rightarrow> bool" where
  "is_File_print (Ev_File_print n str) = True"
| "is_File_print e = False"

fun is_rtc_adjust :: "event \<Rightarrow> bool" where
  "is_rtc_adjust (Ev_rtc_adjust t) = True"
| "is_rtc_adjust e = False"

text \<open>The values of the rows that \<open>StoreData\<close> was called with, as printed on the serial line.\<close>

fun stored_values :: "event list \<Rightarrow> string list" where
  "stored_values (Ev_Serial_print str # Ev_Serial_println v # es) =
     (if str = ''Current[mA]: '' then v # stored_values es
      else stored_values (Ev_Serial_println v # es))"
| "stored_values (e # es) = stored_values es"
| "stored_values [] = []"


subsection \<open>Concrete inputs\<close>

text \<open>
  \<open>Print::print(float)\<close> of the Arduino core prints two decimals, rounded. Here the
  rounding is done in exact arithmetic, which agrees with the core on the values printed
  in the runs below (1, 2, 3, 4 and 1.5) and may differ from it where binary rounding
  matters. No general statement depends on it: there the text of a value is a parameter.
\<close>

definition printFloat2 :: "real \<Rightarrow> string" where
  "printFloat2 number =
     (if 4294967040 < \<bar>number\<bar> then ''ovf''
      else
        (let a = \<bar>number\<bar> + 5 / 1000;
             int_part = nat \<lfloor>a\<rfloor>;
             r = a - real int_part;
             d1 = nat \<lfloor>r * 10\<rfloor>;
             r1 = r * 10 - real d1;
             d2 = nat \<lfloor>r1 * 10\<rfloor>
         in (if number < 0 then ''-'' else []) @ utoa int_part @ ''.'' @ utoa d1 @ utoa d2))"

text \<open>
  Exact arithmetic in place of \<open>float\<close>. On small whole numbers and their halves the
  arithmetic of \<open>float\<close> is exact too, so both agree on the inputs used below.
\<close>

definition exact_ops :: "real float_ops" where
  "exact_ops =
     \<lparr>fzero = 0, fadd = (+), fdiv = (/), float_of_int = of_int, print_float = printFloat2\<rparr>"

definition some_date :: DateTime where
  "some_date = \<lparr>year = 2024, month = 5, day = 9, hour = 9, minute = 5, second = 3\<rparr>"

definition all_ok :: setup_in where
  "all_ok =
     \<lparr>rtc_begin = True, rtc_isrunning = True, SD_begin = True, ina219_init = True,
      rtc_now = some_date, build_time = some_date\<rparr>"

definition sample :: "real \<Rightarrow> real loop_in" where
  "sample v =
     \<lparr>loop_ina219_init = True, loop_SD_begin = True, getCurrent_mA = v,
      loop_rtc_now = some_date\<rparr>"

subsection \<open>Rows\<close>

text \<open>The time of day as \<open>H:M:S\<close>, the numbers as \<open>String\<close> prints them.\<close>

definition hms :: "DateTime \<Rightarrow> string" where
  "hms t = String_of (hour t) @ '':'' @ String_of (minute t) @ '':'' @ String_of (second t)"

text \<open>A row of the file: time, comma, value, comma, line terminator.\<close>

definition row :: "'f float_ops \<Rightarrow> DateTime \<Rightarrow> 'f \<Rightarrow> string" where
  "row fl t v = hms t @ '','' @ print_float fl v @ '','' @ CRLF"

text \<open>The calls that one run of \<open>StoreData\<close> makes while the file of name \<open>n\<close> is open.\<close>

definition StoreData_events :: "'f float_ops \<Rightarrow> string \<Rightarrow> DateTime \<Rightarrow> 'f \<Rightarrow> event list" where
  "StoreData_events fl n t v =
     [Ev_Serial_print ''At '', Ev_Serial_println (hms t),
      Ev_Serial_print ''Current[mA]: '', Ev_Serial_println (print_float fl v),
      Ev_File_print n (hms t), Ev_File_print n '','',
      Ev_File_print n (print_float fl v), Ev_File_print n '','',
      Ev_Serial_println ''Data stored!'', Ev_Serial_println [],
      Ev_File_println n []]"

subsection \<open>Auxiliary notions\<close>

text \<open>The calls made between two states of a run.\<close>

definition new_events :: "'f state \<Rightarrow> 'f state \<Rightarrow> event list" where
  "new_events s s' = drop (length (trace s)) (trace s')"

text \<open>One round of the blinking loop of solardatalog.ino, and \<open>k\<close> rounds.\<close>

definition blink_round :: "int16 \<Rightarrow> event list" where
  "blink_round freq =
     [Ev_digitalWrite LEDPIN True, Ev_delay (unat (to_ulong (int16_div freq freq * 1000))),
      Ev_digitalWrite LEDPIN False, Ev_delay (unat (to_ulong (int16_div freq freq * 1000)))]"

definition blink_events :: "int16 \<Rightarrow> nat \<Rightarrow> event list" where
  "blink_events freq k = concat (replicate k (blink_round freq))"

text \<open>
  What every call of \<open>loop()\<close> keeps: the trace grows by calls that follow the discipline of the
  file handle, write no header to the file \<open>n\<close> and do not set the clock; no file is open
  afterwards, and the file \<open>n\<close> has only grown at its end.
\<close>

definition step_ok :: "string \<Rightarrow> 'f state \<Rightarrow> 'f state \<Rightarrow> bool" where
  "step_ok n s s' =
     (trace s' = trace s @ new_events s s' \<and>
      walk False (new_events s s') = Some False \<and>
      header_writes n (new_events s s') = 0 \<and>
      filter is_rtc_adjust (new_events s s') = [] \<and>
      file_handle s' = None \<and>
      (\<exists>c. contents (sd s') n = contents (sd s) n @ c))"

text \<open>
  What \<open>setup()\<close> keeps: the discipline of the file handle; the header goes into the file \<open>n\<close>
  exactly when that file was empty before and is not afterwards; and a file is either left
  as it was or was empty and now holds the header line.
\<close>

definition setup_ok :: "string \<Rightarrow> 'f state \<Rightarrow> 'f state \<Rightarrow> bool" where
  "setup_ok n s s' =
     (trace s' = trace s @ new_events s s' \<and>
      walk False (new_events s s') = Some False \<and>
      file_handle s' = None \<and>
      header_writes n (new_events s s') =
        (if contents (sd s) n = [] \<and> contents (sd s') n \<noteq> [] then 1 else 0) \<and>
      (contents (sd s') n = contents (sd s) n \<or>
       contents (sd s) n = [] \<and> contents (sd s') n = header @ CRLF))"

fun is_SD_open :: "event \<Rightarrow> bool" where
  "is_SD_open (Ev_SD_open n) = True"
| "is_SD_open e = False"

text \<open>The rows of a trace: each row ends with the \<open>println()\<close> of \<open>StoreData\<close>.\<close>

fun is_row_end :: "event \<Rightarrow> bool" where
  "is_row_end (Ev_File_println n str) = (str = [])"
| "is_row_end e = False"

definition row_count :: "event list \<Rightarrow> nat" where
  "row_count tr = length (filter is_row_end tr)"

section \<open>Decimal text and the file name\<close>




lemma to_char_digit: "unat a < 10 \<Longrightarrow> to_char (48 + a) = digit_char (unat a)"
  by (simp add: to_char_def digit_char_def unat_word_ariths)

lemma utoa_1: "n < 10 \<Longrightarrow> utoa n = [digit_char n]"
  by (simp add: utoa.simps)

lemma utoa_2: "10 \<le> n \<Longrightarrow> n < 100 \<Longrightarrow> utoa n = [digit_char (n div 10), digit_char (n mod 10)]"
  by (subst utoa.simps) (simp add: utoa_1)

lemma utoa_3: "100 \<le> n \<Longrightarrow> n < 1000 \<Longrightarrow>
  utoa n = [digit_char (n div 100), digit_char (n div 10 mod 10), digit_char (n mod 10)]"
  by (subst utoa.simps) (simp add: utoa_2 div_mult2_eq[symmetric])




lemma unat_ucast_8_16: "unat (ucast (w :: 8 word) :: 16 word) = unat w"
proof -
  have "unat w < 2 ^ 8"
    using unsigned_less [of w] by simp
  then have "unat w < 2 ^ 16"
    by simp
  then show ?thesis
    by (simp add: unsigned_ucast_eq take_bit_nat_eq_self)
qed

lemma generate_filename_digits:
  assumes "filename s = ''YYYYMMDD.csv''" and "unat (year t) < 10000"
  shows "filename (generate_filename t s) =
    [digit_char (unat (year t) div 1000), digit_char (unat (year t) div 100 mod 10),
     digit_char (unat (year t) div 10 mod 10), digit_char (unat (year t) mod 10),
     digit_char (unat (month t) div 10 mod 10), digit_char (unat (month t) mod 10),
     digit_char (unat (day t) div 10 mod 10), digit_char (unat (day t) mod 10)] @ ''.csv''"
proof -
  have y: "unat (year t div 1000) < 10"
    using assms(2) by (simp add: unat_div)
  have m: "unat (ucast (month t) :: 16 word) = unat (month t)"
    by (rule unat_ucast_8_16)
  have d: "unat (ucast (day t) :: 16 word) = unat (day t)"
    by (rule unat_ucast_8_16)
  show ?thesis
    using y by (simp add: generate_filename_def dated_name_def Let_def assms(1) to_char_digit unat_div unat_mod m d)
qed


section \<open>The statements of the sketches, one by one\<close>

lemmas prim_defs = emit_def halt_def Serial_print_def Serial_println_def digitalWrite_def
  delay_def rtc_adjust_def contents_def SD_open_def file_size_def file_print_def
  file_println_def file_close_def

lemma seq_halted: "halted s \<Longrightarrow> seq fs s = s"
  by (cases fs) simp_all

lemma begin_of_setup_eq:
  "\<not> halted s \<Longrightarrow> begin_of_setup s =
     s\<lparr>trace := trace s @ [Ev_pinMode LEDPIN, Ev_Serial_begin 9600, Ev_Wire_begin]\<rparr>"
  by (simp add: begin_of_setup_def prim_defs)

lemma end_of_setup_eq:
  "\<not> halted s \<Longrightarrow> end_of_setup s =
     s\<lparr>trace := trace s @ [Ev_Serial_println ''All checks OK!'',
        Ev_Serial_print ''Data will be stored into '', Ev_Serial_println (filename s),
        Ev_Serial_println []]\<rparr>"
  by (simp add: end_of_setup_def prim_defs)

lemma write_header_empty:
  "\<not> halted s \<Longrightarrow> contents (sd s) (filename s) = [] \<Longrightarrow> write_header s =
     s\<lparr>file_handle := None,
       sd := (sd s)(filename s \<mapsto> header @ CRLF),
       trace := trace s @ [Ev_SD_open (filename s), Ev_File_println (filename s) header,
                Ev_File_close (filename s), Ev_Serial_println ''SD card OK!'']\<rparr>"
  by (simp add: write_header_def prim_defs)

lemma write_header_nonempty:
  "\<not> halted s \<Longrightarrow> contents (sd s) (filename s) \<noteq> [] \<Longrightarrow> write_header s =
     s\<lparr>file_handle := None,
       sd := (sd s)(filename s \<mapsto> contents (sd s) (filename s)),
       trace := trace s @ [Ev_SD_open (filename s),
                Ev_File_close (filename s), Ev_Serial_println ''SD card OK!'']\<rparr>"
  by (simp add: write_header_def prim_defs)

lemma StoreData_eq:
  "\<not> halted s \<Longrightarrow> file_handle s = Some n \<Longrightarrow>
   StoreData fl inp v s =
     s\<lparr>sd := (sd s)(n \<mapsto> contents (sd s) n @ row fl (loop_rtc_now inp) v),
       trace := trace s @ StoreData_events fl n (loop_rtc_now inp) v\<rparr>"
  by (simp add: StoreData_def Let_def prim_defs row_def hms_def StoreData_events_def)

lemma ReadData_v2_plain:
  "\<not> halted s \<Longrightarrow> file_handle s = Some n \<Longrightarrow> \<not> averaged cfg \<Longrightarrow>
   ReadData_v2 fl cfg inp s =
     s\<lparr>sd := (sd s)(n \<mapsto> contents (sd s) n @ row fl (loop_rtc_now inp) (getCurrent_mA inp)),
       trace := trace s @ StoreData_events fl n (loop_rtc_now inp) (getCurrent_mA inp)\<rparr>"
  by (simp add: ReadData_v2_def Let_def StoreData_eq)

lemma ReadData_v2_accumulate:
  "averaged cfg \<Longrightarrow> counter s + 1 \<noteq> datapoints cfg \<Longrightarrow>
   ReadData_v2 fl cfg inp s =
     s\<lparr>averagedcurrent_mA := fadd fl (averagedcurrent_mA s) (getCurrent_mA inp),
       counter := counter s + 1\<rparr>"
  by (simp add: ReadData_v2_def Let_def)

lemma ReadData_v2_emit:
  "\<not> halted s \<Longrightarrow> file_handle s = Some n \<Longrightarrow> averaged cfg \<Longrightarrow>
   counter s + 1 = datapoints cfg \<Longrightarrow>
   ReadData_v2 fl cfg inp s =
     s\<lparr>averagedcurrent_mA := fadd fl (averagedcurrent_mA s) (getCurrent_mA inp),
       counter := 0,
       sd := (sd s)(n \<mapsto> contents (sd s) n @ row fl (loop_rtc_now inp)
               (fdiv fl (fadd fl (averagedcurrent_mA s) (getCurrent_mA inp))
                  (float_of_int fl (sint (datapoints cfg))))),
       trace := trace s @ StoreData_events fl n (loop_rtc_now inp)
               (fdiv fl (fadd fl (averagedcurrent_mA s) (getCurrent_mA inp))
                  (float_of_int fl (sint (datapoints cfg))))\<rparr>"
  by (simp add: ReadData_v2_def Let_def StoreData_eq contents_def)

lemma loop_v2_plain:
  "\<not> halted s \<Longrightarrow> \<not> averaged cfg \<Longrightarrow>
   loop_v2 fl cfg inp s =
     s\<lparr>file_handle := None,
       sd := (sd s)(filename s \<mapsto>
               contents (sd s) (filename s) @ row fl (loop_rtc_now inp) (getCurrent_mA inp)),
       trace := trace s @ [Ev_digitalWrite LEDPIN True, Ev_SD_open (filename s)] @
         StoreData_events fl (filename s) (loop_rtc_now inp) (getCurrent_mA inp) @
         [Ev_File_close (filename s), Ev_delay (unat (to_ulong (frequency cfg * 500))),
          Ev_digitalWrite LEDPIN False, Ev_delay (unat (to_ulong (frequency cfg * 500)))]\<rparr>"
  by (simp add: loop_v2_def ReadData_v2_plain digitalWrite_def SD_open_def emit_def
      file_close_def delay_def contents_def)

lemma loop_v2_accumulate:
  "\<not> halted s \<Longrightarrow> averaged cfg \<Longrightarrow> counter s + 1 \<noteq> datapoints cfg \<Longrightarrow>
   loop_v2 fl cfg inp s =
     s\<lparr>file_handle := None,
       averagedcurrent_mA := fadd fl (averagedcurrent_mA s) (getCurrent_mA inp),
       counter := counter s + 1,
       sd := (sd s)(filename s \<mapsto> contents (sd s) (filename s)),
       trace := trace s @ [Ev_digitalWrite LEDPIN True, Ev_SD_open (filename s),
          Ev_File_close (filename s), Ev_delay (unat (to_ulong (frequency cfg * 500))),
          Ev_digitalWrite LEDPIN False, Ev_delay (unat (to_ulong (frequency cfg * 500)))]\<rparr>"
  by (simp add: loop_v2_def ReadData_v2_accumulate digitalWrite_def SD_open_def emit_def
      file_close_def delay_def contents_def)

lemma loop_v2_emit:
  "\<not> halted s \<Longrightarrow> averaged cfg \<Longrightarrow> counter s + 1 = datapoints cfg \<Longrightarrow>
   loop_v2 fl cfg inp s =
     s\<lparr>file_handle := None,
       averagedcurrent_mA := fadd fl (averagedcurrent_mA s) (getCurrent_mA inp),
       counter := 0,
       sd := (sd s)(filename s \<mapsto> contents (sd s) (filename s) @ row fl (loop_rtc_now inp)
               (fdiv fl (fadd fl (averagedcurrent_mA s) (getCurrent_mA inp))
                  (float_of_int fl (sint (datapoints cfg))))),
       trace := trace s @ [Ev_digitalWrite LEDPIN True, Ev_SD_open (filename s)] @
         StoreData_events fl (filename s) (loop_rtc_now inp)
               (fdiv fl (fadd fl (averagedcurrent_mA s) (getCurrent_mA inp))
                  (float_of_int fl (sint (datapoints cfg)))) @
         [Ev_File_close (filename s), Ev_delay (unat (to_ulong (frequency cfg * 500))),
          Ev_digitalWrite LEDPIN False, Ev_delay (unat (to_ulong (frequency cfg * 500)))]\<rparr>"
  by (simp add: loop_v2_def ReadData_v2_emit digitalWrite_def SD_open_def emit_def
      file_close_def delay_def contents_def)

section \<open>Observations on traces\<close>

lemma walk_append:
  "walk opn (xs @ ys) = (case walk opn xs of None \<Rightarrow> None | Some b \<Rightarrow> walk b ys)"
  by (induction opn xs rule: walk.induct) simp_all

lemma header_writes_append [simp]:
  "header_writes n (xs @ ys) = header_writes n xs + header_writes n ys"
  by (simp add: header_writes_def)

lemma header_writes_Nil [simp]: "header_writes n [] = 0"
  by (simp add: header_writes_def)

lemma delay_total_append [simp]: "delay_total (xs @ ys) = delay_total xs + delay_total ys"
  by (simp add: delay_total_def)

lemma delay_total_Nil [simp]: "delay_total [] = 0"
  by (simp add: delay_total_def)

lemma header_not_Nil: "header \<noteq> []"
  by (simp add: header_def)

lemma StoreData_events_walk: "walk True (StoreData_events fl n t v) = Some True"
  by (simp add: StoreData_events_def)

lemma StoreData_events_header: "header_writes m (StoreData_events fl n t v) = 0"
  using header_not_Nil by (auto simp add: StoreData_events_def header_writes_def)

lemma StoreData_events_adjust: "filter is_rtc_adjust (StoreData_events fl n t v) = []"
  by (simp add: StoreData_events_def)

lemma StoreData_events_delay: "delay_total (StoreData_events fl n t v) = 0"
  by (simp add: StoreData_events_def delay_total_def)

lemma blink_events_Suc: "blink_events freq (Suc k) = blink_round freq @ blink_events freq k"
  by (simp add: blink_events_def)

lemma blink_events_walk: "walk False (blink_events freq k) = Some False"
  by (induction k) (simp_all add: blink_events_Suc walk_append, simp_all add: blink_events_def blink_round_def)

lemma blink_events_header: "header_writes m (blink_events freq k) = 0"
  by (induction k) (simp_all add: blink_events_Suc, simp_all add: blink_events_def blink_round_def header_writes_def)

lemma blink_events_adjust: "filter is_rtc_adjust (blink_events freq k) = []"
  by (induction k) (simp_all add: blink_events_Suc, simp_all add: blink_events_def blink_round_def)

lemma blink_events_delay:
  "delay_total (blink_events freq k) = k * (2 * unat (to_ulong (int16_div freq freq * 1000)))"
  by (induction k) (simp_all add: blink_events_Suc, simp_all add: blink_events_def blink_round_def delay_total_def)

lemma blink_eq:
  "\<not> halted s \<Longrightarrow>
   blink freq i s = s\<lparr>trace := trace s @ blink_events freq (nat (sint (int16_div freq 2) + 1 - i))\<rparr>"
proof (induction freq i s rule: blink.induct)
  case (1 freq i s)
  let ?round = "seq [digitalWrite LEDPIN True,
                delay (to_ulong (int16_div freq freq * 1000)),
                digitalWrite LEDPIN False,
                delay (to_ulong (int16_div freq freq * 1000))] s"
  have round: "?round = s\<lparr>trace := trace s @ blink_round freq\<rparr>"
    using "1.prems" by (simp add: digitalWrite_def delay_def emit_def blink_round_def)
  have nh: "\<not> halted ?round"
    using "1.prems" by (simp only: round) simp
  show ?case
  proof (cases "i \<le> sint (int16_div freq 2)")
    case True
    then have k: "nat (sint (int16_div freq 2) + 1 - i) = Suc (nat (sint (int16_div freq 2) + 1 - (i + 1)))"
      by simp
    have "blink freq i s = blink freq (i + 1) ?round"
      using True by (subst blink.simps) simp
    also have "\<dots> = ?round\<lparr>trace := trace ?round @
        blink_events freq (nat (sint (int16_div freq 2) + 1 - (i + 1)))\<rparr>"
      by (rule "1.IH" [OF True nh])
    finally show ?thesis
      by (simp only: k blink_events_Suc round) simp
  next
    case False
    then show ?thesis
      by (subst blink.simps) (simp add: blink_events_def)
  qed
qed

section \<open>One call of loop() of solardatalog.ino\<close>

lemma loop_dl_no_sensor:
  "\<not> halted s \<Longrightarrow> \<not> loop_ina219_init inp \<Longrightarrow>
   loop_dl fl cfg inp s =
     s\<lparr>trace := trace s @
         [Ev_Serial_println
            ''Error : INA219 not connected! Connect the INA219, then push the reset button'',
          Ev_digitalWrite LEDPIN True],
       halted := True\<rparr>"
  by (simp add: loop_dl_def Serial_println_def digitalWrite_def emit_def halt_def)

lemma loop_dl_no_card:
  "\<not> halted s \<Longrightarrow> loop_ina219_init inp \<Longrightarrow> \<not> loop_SD_begin inp \<Longrightarrow>
   loop_dl fl cfg inp s =
     s\<lparr>trace := trace s @
         [Ev_Serial_println
            ''Error : SD card not detected! Attach the SD card, then push the reset button'',
          Ev_digitalWrite LEDPIN True],
       halted := True\<rparr>"
  by (simp add: loop_dl_def Serial_println_def digitalWrite_def emit_def halt_def)

lemma loop_dl_ok:
  "\<not> halted s \<Longrightarrow> loop_ina219_init inp \<Longrightarrow> loop_SD_begin inp \<Longrightarrow>
   loop_dl fl cfg inp s =
     s\<lparr>file_handle := None,
       sd := (sd s)(filename s \<mapsto>
               contents (sd s) (filename s) @ row fl (loop_rtc_now inp) (getCurrent_mA inp)),
       trace := trace s @ [Ev_SD_open (filename s)] @
         StoreData_events fl (filename s) (loop_rtc_now inp) (getCurrent_mA inp) @
         [Ev_File_close (filename s)] @
         blink_events (frequency cfg) (nat (sint (int16_div (frequency cfg) 2)))\<rparr>"
  by (simp add: loop_dl_def ReadData_dl_def Let_def StoreData_eq SD_open_def emit_def
      file_close_def contents_def blink_eq)

lemma digit_char_simps:
  "digit_char 0 = CHR ''0''" "digit_char 1 = CHR ''1''" "digit_char (Suc 0) = CHR ''1''"
  "digit_char 2 = CHR ''2''"
  "digit_char 3 = CHR ''3''" "digit_char 4 = CHR ''4''" "digit_char 5 = CHR ''5''"
  "digit_char 6 = CHR ''6''" "digit_char 7 = CHR ''7''" "digit_char 8 = CHR ''8''"
  "digit_char 9 = CHR ''9''"
  by code_simp+

lemma some_date_name: "filename (generate_filename some_date (boot fl disk tr)) = ''20240509.csv''"
  using generate_filename_digits [of "boot fl disk tr" some_date]
  by (simp add: boot_def some_date_def digit_char_simps)


lemma printFloat2_simps:
  "printFloat2 1 = ''1.00''" "printFloat2 2 = ''2.00''" "printFloat2 3 = ''3.00''"
  "printFloat2 4 = ''4.00''" "printFloat2 (3 / 2) = ''1.50''"
  by (simp_all add: printFloat2_def Let_def utoa.simps digit_char_simps)

lemma String_of_cases:
  "String_of x =
     (if unat x < 10 then [digit_char (unat x)]
      else if unat x < 100 then [digit_char (unat x div 10), digit_char (unat x mod 10)]
      else [digit_char (unat x div 100), digit_char (unat x div 10 mod 10),
            digit_char (unat x mod 10)])"
proof -
  have "unat x < 2 ^ 8"
    using unsigned_less [of x] by simp
  then have "unat x < 1000"
    by simp
  then show ?thesis
    by (simp add: String_of_def utoa_1 utoa_2 utoa_3)
qed

section \<open>The row that StoreData appends\<close>

text \<open>
  Claim C7. \<open>StoreData\<close>, called while the file is open, appends to it exactly the time of
  the clock as \<open>H:M:S\<close>, a comma, the value, a comma and the line terminator, and touches
  no other file. Hour, minute and second are written without padding: a number below 10
  is one digit, a number below 100 is two digits.
\<close>

theorem StoreData_appends_row:
  assumes "\<not> halted s" and "file_handle s = Some n"
  shows "sd (StoreData fl inp v s) =
           (sd s)(n \<mapsto> contents (sd s) n @ hms (loop_rtc_now inp) @ '','' @ print_float fl v @
                   '','' @ CRLF)
       \<and> hms (loop_rtc_now inp) =
           String_of (hour (loop_rtc_now inp)) @ '':'' @ String_of (minute (loop_rtc_now inp)) @
           '':'' @ String_of (second (loop_rtc_now inp))
       \<and> (\<forall>x. String_of x =
           (if unat x < 10 then [digit_char (unat x)]
            else if unat x < 100 then [digit_char (unat x div 10), digit_char (unat x mod 10)]
            else [digit_char (unat x div 100), digit_char (unat x div 10 mod 10),
                  digit_char (unat x mod 10)]))"
proof -
  have "sd (StoreData fl inp v s) =
          (sd s)(n \<mapsto> contents (sd s) n @ hms (loop_rtc_now inp) @ '','' @ print_float fl v @
                  '','' @ CRLF)"
    using assms by (simp add: StoreData_eq row_def)
  moreover have "\<forall>x. String_of x =
           (if unat x < 10 then [digit_char (unat x)]
            else if unat x < 100 then [digit_char (unat x div 10), digit_char (unat x mod 10)]
            else [digit_char (unat x div 100), digit_char (unat x div 10 mod 10),
                  digit_char (unat x mod 10)])"
    using String_of_cases by blast
  ultimately show ?thesis
    by (simp add: hms_def)
qed

theorem StoreData_appends_row_witness:
  "\<not> halted ((boot exact_ops Map.empty [])\<lparr>file_handle := Some ''20240509.csv''\<rparr>)
   \<and> file_handle ((boot exact_ops Map.empty [])\<lparr>file_handle := Some ''20240509.csv''\<rparr>) =
       Some ''20240509.csv''
   \<and> sd (StoreData exact_ops (sample (3 / 2)) (3 / 2)
           ((boot exact_ops Map.empty [])\<lparr>file_handle := Some ''20240509.csv''\<rparr>))
         ''20240509.csv'' = Some (''9:5:3,1.50,'' @ CRLF)"
proof -
  let ?s = "(boot exact_ops Map.empty [])\<lparr>file_handle := Some ''20240509.csv''\<rparr>"
  have h1: "\<not> halted ?s"
    by (simp add: boot_def)
  have h2: "file_handle ?s = Some ''20240509.csv''"
    by simp
  have t: "hms (loop_rtc_now (sample (3 / 2))) = ''9:5:3''"
    by (simp add: hms_def sample_def some_date_def String_of_cases digit_char_simps)
  from StoreData_appends_row [OF h1 h2, of exact_ops "sample (3 / 2)" "3 / 2"]
  have "sd (StoreData exact_ops (sample (3 / 2)) (3 / 2) ?s) =
          (sd ?s)(''20240509.csv'' \<mapsto> contents (sd ?s) ''20240509.csv'' @
             hms (loop_rtc_now (sample (3 / 2))) @ '','' @ print_float exact_ops (3 / 2) @
             '','' @ CRLF)"
    by blast
  then have "sd (StoreData exact_ops (sample (3 / 2)) (3 / 2) ?s) ''20240509.csv'' =
      Some (''9:5:3,1.50,'' @ CRLF)"
    by (simp add: t exact_ops_def printFloat2_simps boot_def contents_def)
  with h1 h2 show ?thesis
    by blast
qed


section \<open>What a call of loop() keeps\<close>

lemma new_events_same [simp]: "new_events s s = []"
  by (simp add: new_events_def)

lemma new_events_appended: "trace s' = trace s @ evs \<Longrightarrow> new_events s s' = evs"
  by (simp add: new_events_def)

lemma contents_upd_append: "\<exists>c. contents (d(m \<mapsto> contents d m @ r)) n = contents d n @ c"
  by (cases "n = m") (simp_all add: contents_def)

lemma contents_upd_same: "contents (d(m \<mapsto> contents d m)) n = contents d n"
  by (cases "n = m") (simp_all add: contents_def)

lemma header_writes_Cons:
  "header_writes n (e # es) =
     (if e = Ev_File_println n header then 1 else 0) + header_writes n es"
  by (simp add: header_writes_def)

lemma step_okI:
  assumes "trace s' = trace s @ evs" and "walk False evs = Some False"
    and "header_writes n evs = 0" and "filter is_rtc_adjust evs = []"
    and "file_handle s' = None" and "\<exists>c. contents (sd s') n = contents (sd s) n @ c"
  shows "step_ok n s s'"
  using assms by (simp add: step_ok_def new_events_appended)

lemma step_ok_refl: "file_handle s = None \<Longrightarrow> step_ok n s s"
  by (simp add: step_ok_def)

lemma step_ok_trans:
  assumes "step_ok n s s'" and "step_ok n s' s''"
  shows "step_ok n s s''"
proof -
  let ?a = "new_events s s'" and ?b = "new_events s' s''"
  have t: "trace s'' = trace s @ (?a @ ?b)"
    using assms by (simp add: step_ok_def)
  obtain c where c: "contents (sd s') n = contents (sd s) n @ c"
    using assms(1) by (auto simp add: step_ok_def)
  obtain c' where c': "contents (sd s'') n = contents (sd s') n @ c'"
    using assms(2) by (auto simp add: step_ok_def)
  have "contents (sd s'') n = contents (sd s) n @ (c @ c')"
    by (simp add: c c')
  then have g: "\<exists>c. contents (sd s'') n = contents (sd s) n @ c"
    by blast
  show ?thesis
  proof (rule step_okI [OF t])
    show "walk False (?a @ ?b) = Some False"
      using assms by (simp add: step_ok_def walk_append)
    show "header_writes n (?a @ ?b) = 0"
      using assms by (simp add: step_ok_def)
    show "filter is_rtc_adjust (?a @ ?b) = []"
      using assms by (simp add: step_ok_def)
    show "file_handle s'' = None"
      using assms(2) by (simp add: step_ok_def)
    show "\<exists>c. contents (sd s'') n = contents (sd s) n @ c"
      by (rule g)
  qed
qed

lemma loop_v2_step_ok:
  assumes "\<not> halted s"
  shows "step_ok n s (loop_v2 fl cfg inp s)"
proof -
  consider (plain) "\<not> averaged cfg"
    | (acc) "averaged cfg" "counter s + 1 \<noteq> datapoints cfg"
    | (emit) "averaged cfg" "counter s + 1 = datapoints cfg"
    by blast
  then show ?thesis
  proof cases
    case plain
    show ?thesis
      by (rule step_okI [where evs = "[Ev_digitalWrite LEDPIN True, Ev_SD_open (filename s)] @
         StoreData_events fl (filename s) (loop_rtc_now inp) (getCurrent_mA inp) @
         [Ev_File_close (filename s), Ev_delay (unat (to_ulong (frequency cfg * 500))),
          Ev_digitalWrite LEDPIN False, Ev_delay (unat (to_ulong (frequency cfg * 500)))]"])
        (simp_all add: loop_v2_plain [OF assms plain] walk_append StoreData_events_walk
          StoreData_events_header StoreData_events_adjust contents_upd_append header_writes_Cons)
  next
    case acc
    show ?thesis
      by (rule step_okI [where evs = "[Ev_digitalWrite LEDPIN True, Ev_SD_open (filename s),
          Ev_File_close (filename s), Ev_delay (unat (to_ulong (frequency cfg * 500))),
          Ev_digitalWrite LEDPIN False, Ev_delay (unat (to_ulong (frequency cfg * 500)))]"])
        (simp_all add: loop_v2_accumulate [OF assms acc] contents_upd_same header_writes_Cons)
  next
    case emit
    show ?thesis
      by (rule step_okI [where evs = "[Ev_digitalWrite LEDPIN True, Ev_SD_open (filename s)] @
         StoreData_events fl (filename s) (loop_rtc_now inp)
               (fdiv fl (fadd fl (averagedcurrent_mA s) (getCurrent_mA inp))
                  (float_of_int fl (sint (datapoints cfg)))) @
         [Ev_File_close (filename s), Ev_delay (unat (to_ulong (frequency cfg * 500))),
          Ev_digitalWrite LEDPIN False, Ev_delay (unat (to_ulong (frequency cfg * 500)))]"])
        (simp_all add: loop_v2_emit [OF assms emit] walk_append StoreData_events_walk
          StoreData_events_header StoreData_events_adjust contents_upd_append header_writes_Cons)
  qed
qed

lemma loop_dl_step_ok:
  assumes "\<not> halted s" and "file_handle s = None"
  shows "step_ok n s (loop_dl fl cfg inp s)"
proof -
  consider (sensor) "\<not> loop_ina219_init inp"
    | (card) "loop_ina219_init inp" "\<not> loop_SD_begin inp"
    | (ok) "loop_ina219_init inp" "loop_SD_begin inp"
    by blast
  then show ?thesis
  proof cases
    case sensor
    show ?thesis
      by (rule step_okI [where evs = "[Ev_Serial_println
            ''Error : INA219 not connected! Connect the INA219, then push the reset button'',
          Ev_digitalWrite LEDPIN True]"])
        (simp_all add: loop_dl_no_sensor [OF assms(1) sensor] assms(2) header_writes_Cons)
  next
    case card
    show ?thesis
      by (rule step_okI [where evs = "[Ev_Serial_println
            ''Error : SD card not detected! Attach the SD card, then push the reset button'',
          Ev_digitalWrite LEDPIN True]"])
        (simp_all add: loop_dl_no_card [OF assms(1) card] assms(2) header_writes_Cons)
  next
    case ok
    show ?thesis
      by (rule step_okI [where evs = "[Ev_SD_open (filename s)] @
         StoreData_events fl (filename s) (loop_rtc_now inp) (getCurrent_mA inp) @
         [Ev_File_close (filename s)] @
         blink_events (frequency cfg) (nat (sint (int16_div (frequency cfg) 2)))"])
        (simp_all add: loop_dl_ok [OF assms(1) ok] walk_append StoreData_events_walk
          StoreData_events_header StoreData_events_adjust contents_upd_append
          blink_events_walk blink_events_header blink_events_adjust header_writes_Cons)
  qed
qed

lemma sketch_loop_step_ok:
  "\<not> halted s \<Longrightarrow> file_handle s = None \<Longrightarrow> step_ok n s (sketch_loop sk fl cfg inp s)"
  by (cases sk) (simp_all add: sketch_loop_def loop_v2_step_ok loop_dl_step_ok)

lemma run_loop_halted: "halted s \<Longrightarrow> run_loop sk fl cfg inps s = s"
  by (induction inps) simp_all

lemma run_loop_step_ok:
  "file_handle s = None \<Longrightarrow> step_ok n s (run_loop sk fl cfg inps s)"
proof (induction inps arbitrary: s)
  case Nil
  then show ?case
    by (simp add: step_ok_refl)
next
  case (Cons inp inps)
  show ?case
  proof (cases "halted s")
    case True
    then show ?thesis
      using Cons.prems by (simp add: run_loop_halted step_ok_refl)
  next
    case False
    let ?s' = "sketch_loop sk fl cfg inp s"
    have one: "step_ok n s ?s'"
      using False Cons.prems by (rule sketch_loop_step_ok)
    then have "file_handle ?s' = None"
      by (simp add: step_ok_def)
    then have "step_ok n ?s' (run_loop sk fl cfg inps ?s')"
      by (rule Cons.IH)
    with one have "step_ok n s (run_loop sk fl cfg inps ?s')"
      by (rule step_ok_trans)
    then show ?thesis
      using False by simp
  qed
qed

section \<open>What setup() keeps\<close>

lemma contents_upd: "contents (d(m \<mapsto> c)) n = (if n = m then c else contents d n)"
  by (simp add: contents_def)

lemmas setup_simps = begin_of_setup_eq end_of_setup_eq write_header_empty write_header_nonempty
  generate_filename_def Serial_println_def Serial_print_def rtc_adjust_def digitalWrite_def
  emit_def halt_def


lemma setup_v2_setup_ok:
  assumes "\<not> halted s" and "file_handle s = None"
  shows "setup_ok n s (setup_v2 hw s)"
  using assms
  by (cases "rtc_begin hw"; cases "rtc_isrunning hw"; cases "SD_begin hw";
      cases "ina219_init hw";
      cases "contents (sd s) (dated_name (rtc_now hw) (filename s)) = []";
      cases "n = dated_name (rtc_now hw) (filename s)";
      simp add: setup_v2_def setup_simps setup_ok_def new_events_def header_writes_Cons
        contents_upd CRLF_def)


lemma setup_dl_setup_ok:
  assumes "\<not> halted s" and "file_handle s = None"
  shows "setup_ok n s (setup_dl hw s)"
  using assms
  by (cases "rtc_begin hw"; cases "rtc_isrunning hw"; cases "SD_begin hw";
      cases "ina219_init hw";
      cases "contents (sd s) (dated_name (rtc_now hw) (filename s)) = []";
      cases "n = dated_name (rtc_now hw) (filename s)";
      simp add: setup_dl_def setup_simps setup_ok_def new_events_def header_writes_Cons
        contents_upd CRLF_def)


lemma setup_v2_halted:
  assumes "\<not> halted s"
  shows "halted (setup_v2 hw s) = (\<not> rtc_begin hw \<or> \<not> SD_begin hw \<or> \<not> ina219_init hw)"
  using assms
  by (cases "rtc_begin hw"; cases "rtc_isrunning hw"; cases "SD_begin hw";
      cases "ina219_init hw";
      cases "contents (sd s) (dated_name (rtc_now hw) (filename s)) = []";
      simp add: setup_v2_def setup_simps)

lemma setup_dl_halted:
  assumes "\<not> halted s"
  shows "halted (setup_dl hw s) =
    (\<not> ina219_init hw \<or> \<not> rtc_begin hw \<or> \<not> rtc_isrunning hw \<or> \<not> SD_begin hw)"
  using assms
  by (cases "rtc_begin hw"; cases "rtc_isrunning hw"; cases "SD_begin hw";
      cases "ina219_init hw";
      cases "contents (sd s) (dated_name (rtc_now hw) (filename s)) = []";
      simp add: setup_dl_def setup_simps)

lemma setup_v2_no_rows:
  assumes "\<not> halted s"
  shows "filter is_File_print (new_events s (setup_v2 hw s)) = []"
  using assms
  by (cases "rtc_begin hw"; cases "rtc_isrunning hw"; cases "SD_begin hw";
      cases "ina219_init hw";
      cases "contents (sd s) (dated_name (rtc_now hw) (filename s)) = []";
      simp add: setup_v2_def setup_simps new_events_def)

lemma setup_dl_no_rows:
  assumes "\<not> halted s"
  shows "filter is_File_print (new_events s (setup_dl hw s)) = []"
  using assms
  by (cases "rtc_begin hw"; cases "rtc_isrunning hw"; cases "SD_begin hw";
      cases "ina219_init hw";
      cases "contents (sd s) (dated_name (rtc_now hw) (filename s)) = []";
      simp add: setup_dl_def setup_simps new_events_def)

lemma setup_v2_adjust:
  assumes "\<not> halted s"
  shows "filter is_rtc_adjust (new_events s (setup_v2 hw s)) =
    (if rtc_begin hw \<and> \<not> rtc_isrunning hw then [Ev_rtc_adjust (build_time hw)] else [])"
  using assms
  by (cases "rtc_begin hw"; cases "rtc_isrunning hw"; cases "SD_begin hw";
      cases "ina219_init hw";
      cases "contents (sd s) (dated_name (rtc_now hw) (filename s)) = []";
      simp add: setup_v2_def setup_simps new_events_def)

lemma setup_dl_adjust:
  assumes "\<not> halted s"
  shows "filter is_rtc_adjust (new_events s (setup_dl hw s)) =
    (if ina219_init hw \<and> rtc_begin hw \<and> \<not> rtc_isrunning hw
     then [Ev_rtc_adjust (build_time hw)] else [])"
  using assms
  by (cases "rtc_begin hw"; cases "rtc_isrunning hw"; cases "SD_begin hw";
      cases "ina219_init hw";
      cases "contents (sd s) (dated_name (rtc_now hw) (filename s)) = []";
      simp add: setup_dl_def setup_simps new_events_def)

lemma setup_v2_sensor_message:
  assumes "\<not> halted s" and "rtc_begin hw" and "SD_begin hw" and "\<not> ina219_init hw"
  shows "Ev_Serial_println ''Error : INA219 not connected!'' \<in> set (new_events s (setup_v2 hw s))"
  using assms
  by (cases "rtc_isrunning hw";
      cases "contents (sd s) (dated_name (rtc_now hw) (filename s)) = []";
      simp add: setup_v2_def setup_simps new_events_def)

lemma setup_dl_sensor_message:
  assumes "\<not> halted s" and "\<not> ina219_init hw"
  shows "Ev_Serial_println ''Error : INA219 not connected!'' \<in> set (new_events s (setup_dl hw s))"
  using assms
  by (simp add: setup_dl_def setup_simps new_events_def)

lemma setup_v2_sensor_fault:
  assumes "\<not> halted s" and "rtc_begin hw" and "SD_begin hw" and "\<not> ina219_init hw"
  shows "\<exists>pre. setup_v2 hw s =
    s\<lparr>filename := dated_name (rtc_now hw) (filename s),
      file_handle := None,
      sd := (sd s)(dated_name (rtc_now hw) (filename s) \<mapsto>
              (if contents (sd s) (dated_name (rtc_now hw) (filename s)) = []
               then header @ CRLF
               else contents (sd s) (dated_name (rtc_now hw) (filename s)))),
      trace := trace s @ pre @ [Ev_SD_open (dated_name (rtc_now hw) (filename s))] @
        (if contents (sd s) (dated_name (rtc_now hw) (filename s)) = []
         then [Ev_File_println (dated_name (rtc_now hw) (filename s)) header] else []) @
        [Ev_File_close (dated_name (rtc_now hw) (filename s)),
         Ev_Serial_println ''SD card OK!'',
         Ev_Serial_println ''Error : INA219 not connected!'',
         Ev_Serial_println ''Connect the INA219, then push the reset button''],
      halted := True\<rparr>"
proof (cases "rtc_isrunning hw")
  case True
  show ?thesis
    by (rule exI [where x = "[Ev_pinMode LEDPIN, Ev_Serial_begin 9600, Ev_Wire_begin,
        Ev_Serial_println ''RTC detected!'', Ev_Serial_println ''RTC OK!'',
        Ev_Serial_println ''SD card detected!'']"])
      (use assms True in \<open>cases "contents (sd s) (dated_name (rtc_now hw) (filename s)) = []";
        simp add: setup_v2_def setup_simps\<close>)
next
  case False
  show ?thesis
    by (rule exI [where x = "[Ev_pinMode LEDPIN, Ev_Serial_begin 9600, Ev_Wire_begin,
        Ev_Serial_println ''RTC detected!'', Ev_Serial_println ''Error : RTC lost power!'',
        Ev_Serial_println ''RTC will be set to when this sketch was compiled'',
        Ev_rtc_adjust (build_time hw),
        Ev_Serial_println ''SD card detected!'']"])
      (use assms False in \<open>cases "contents (sd s) (dated_name (rtc_now hw) (filename s)) = []";
        simp add: setup_v2_def setup_simps\<close>)
qed

section \<open>A power cycle\<close>

lemma boot_fields:
  "\<not> halted (boot fl disk tr)" "file_handle (boot fl disk tr) = None"
  "trace (boot fl disk tr) = tr" "sd (boot fl disk tr) = disk"
  "filename (boot fl disk tr) = ''YYYYMMDD.csv''" "counter (boot fl disk tr) = 0"
  "averagedcurrent_mA (boot fl disk tr) = fzero fl"
  by (simp_all add: boot_def)

lemma sketch_setup_ok: "setup_ok n (boot fl disk tr) (sketch_setup sk hw (boot fl disk tr))"
  by (cases sk) (simp_all add: sketch_setup_def setup_v2_setup_ok setup_dl_setup_ok boot_fields)

lemma power_cycle_trace:
  "trace (power_cycle sk fl cfg hw inps disk tr) =
     tr @ new_events (boot fl disk tr) (sketch_setup sk hw (boot fl disk tr)) @
       new_events (sketch_setup sk hw (boot fl disk tr)) (power_cycle sk fl cfg hw inps disk tr)"
proof -
  let ?s0 = "boot fl disk tr"
  let ?s1 = "sketch_setup sk hw ?s0"
  have a: "setup_ok [] ?s0 ?s1"
    by (rule sketch_setup_ok)
  then have "file_handle ?s1 = None"
    by (simp add: setup_ok_def)
  then have "step_ok [] ?s1 (run_loop sk fl cfg inps ?s1)"
    by (rule run_loop_step_ok)
  then have "trace (run_loop sk fl cfg inps ?s1) =
      trace ?s1 @ new_events ?s1 (run_loop sk fl cfg inps ?s1)"
    by (simp add: step_ok_def)
  moreover have "trace ?s1 = tr @ new_events ?s0 ?s1"
    using a by (simp add: setup_ok_def boot_fields)
  ultimately show ?thesis
    by (simp add: power_cycle_def)
qed

lemma power_cycle_events:
  "drop (length tr) (trace (power_cycle sk fl cfg hw inps disk tr)) =
     new_events (boot fl disk tr) (sketch_setup sk hw (boot fl disk tr)) @
       new_events (sketch_setup sk hw (boot fl disk tr)) (power_cycle sk fl cfg hw inps disk tr)"
  by (subst power_cycle_trace) simp

lemma power_cycle_step_ok:
  "step_ok n (sketch_setup sk hw (boot fl disk tr)) (power_cycle sk fl cfg hw inps disk tr)"
proof -
  have "setup_ok n (boot fl disk tr) (sketch_setup sk hw (boot fl disk tr))"
    by (rule sketch_setup_ok)
  then have "file_handle (sketch_setup sk hw (boot fl disk tr)) = None"
    by (simp add: setup_ok_def)
  then show ?thesis
    unfolding power_cycle_def by (rule run_loop_step_ok)
qed

lemma power_cycle_halted:
  "halted (sketch_setup sk hw (boot fl disk tr)) \<Longrightarrow>
   power_cycle sk fl cfg hw inps disk tr = sketch_setup sk hw (boot fl disk tr)"
  by (simp add: power_cycle_def run_loop_halted)

section \<open>Faults at startup\<close>

text \<open>
  Claim C10. In SolarFinalVer2.ino the check of the sensor comes after the header block:
  when clock and card answer and the sensor does not, \<open>setup()\<close> halts with the dated file
  on the card, holding the header line if it was empty before, and the calls that open,
  write and close the file come before the message about the sensor. Nothing changes
  afterwards in that power cycle.
\<close>

theorem sensor_fault_leaves_header:
  assumes "rtc_begin hw" and "SD_begin hw" and "\<not> ina219_init hw"
  shows "halted (sketch_setup SolarFinalVer2 hw (boot fl disk tr))
    \<and> sd (sketch_setup SolarFinalVer2 hw (boot fl disk tr)) =
        disk(dated_name (rtc_now hw) ''YYYYMMDD.csv'' \<mapsto>
          (if contents disk (dated_name (rtc_now hw) ''YYYYMMDD.csv'') = []
           then header @ CRLF
           else contents disk (dated_name (rtc_now hw) ''YYYYMMDD.csv'')))
    \<and> (\<exists>pre. trace (sketch_setup SolarFinalVer2 hw (boot fl disk tr)) =
          tr @ pre @ [Ev_SD_open (dated_name (rtc_now hw) ''YYYYMMDD.csv'')] @
          (if contents disk (dated_name (rtc_now hw) ''YYYYMMDD.csv'') = []
           then [Ev_File_println (dated_name (rtc_now hw) ''YYYYMMDD.csv'') header] else []) @
          [Ev_File_close (dated_name (rtc_now hw) ''YYYYMMDD.csv''),
           Ev_Serial_println ''SD card OK!'',
           Ev_Serial_println ''Error : INA219 not connected!'',
           Ev_Serial_println ''Connect the INA219, then push the reset button''])
    \<and> power_cycle SolarFinalVer2 fl cfg hw inps disk tr =
        sketch_setup SolarFinalVer2 hw (boot fl disk tr)"
proof -
  let ?s0 = "boot fl disk tr"
  let ?s1 = "sketch_setup SolarFinalVer2 hw ?s0"
  have nh: "\<not> halted ?s0"
    by (simp add: boot_fields)
  from setup_v2_sensor_fault [OF nh assms] obtain pre where
    e: "setup_v2 hw ?s0 =
    ?s0\<lparr>filename := dated_name (rtc_now hw) (filename ?s0),
      file_handle := None,
      sd := (sd ?s0)(dated_name (rtc_now hw) (filename ?s0) \<mapsto>
              (if contents (sd ?s0) (dated_name (rtc_now hw) (filename ?s0)) = []
               then header @ CRLF
               else contents (sd ?s0) (dated_name (rtc_now hw) (filename ?s0)))),
      trace := trace ?s0 @ pre @ [Ev_SD_open (dated_name (rtc_now hw) (filename ?s0))] @
        (if contents (sd ?s0) (dated_name (rtc_now hw) (filename ?s0)) = []
         then [Ev_File_println (dated_name (rtc_now hw) (filename ?s0)) header] else []) @
        [Ev_File_close (dated_name (rtc_now hw) (filename ?s0)),
         Ev_Serial_println ''SD card OK!'',
         Ev_Serial_println ''Error : INA219 not connected!'',
         Ev_Serial_println ''Connect the INA219, then push the reset button''],
      halted := True\<rparr>"
    by blast
  have s1: "?s1 = setup_v2 hw ?s0"
    by (simp add: sketch_setup_def)
  have h: "halted ?s1"
    by (simp only: s1 e) simp
  have d: "sd ?s1 =
        disk(dated_name (rtc_now hw) ''YYYYMMDD.csv'' \<mapsto>
          (if contents disk (dated_name (rtc_now hw) ''YYYYMMDD.csv'') = []
           then header @ CRLF
           else contents disk (dated_name (rtc_now hw) ''YYYYMMDD.csv'')))"
    by (simp only: s1 e) (simp add: boot_fields)
  have t: "trace ?s1 =
          tr @ pre @ [Ev_SD_open (dated_name (rtc_now hw) ''YYYYMMDD.csv'')] @
          (if contents disk (dated_name (rtc_now hw) ''YYYYMMDD.csv'') = []
           then [Ev_File_println (dated_name (rtc_now hw) ''YYYYMMDD.csv'') header] else []) @
          [Ev_File_close (dated_name (rtc_now hw) ''YYYYMMDD.csv''),
           Ev_Serial_println ''SD card OK!'',
           Ev_Serial_println ''Error : INA219 not connected!'',
           Ev_Serial_println ''Connect the INA219, then push the reset button'']"
    by (simp only: s1 e) (simp add: boot_fields)
  have p: "power_cycle SolarFinalVer2 fl cfg hw inps disk tr = ?s1"
    using h by (rule power_cycle_halted)
  from h d t p show ?thesis
    by blast
qed

lemma some_dated_name: "dated_name some_date ''YYYYMMDD.csv'' = ''20240509.csv''"
  using some_date_name [of exact_ops Map.empty "[]"]
  by (simp add: generate_filename_def boot_fields)

theorem sensor_fault_leaves_header_witness:
  "rtc_begin (all_ok\<lparr>ina219_init := False\<rparr>) \<and> SD_begin (all_ok\<lparr>ina219_init := False\<rparr>)
   \<and> \<not> ina219_init (all_ok\<lparr>ina219_init := False\<rparr>)
   \<and> halted (sketch_setup SolarFinalVer2 (all_ok\<lparr>ina219_init := False\<rparr>)
        (boot exact_ops Map.empty []))
   \<and> sd (sketch_setup SolarFinalVer2 (all_ok\<lparr>ina219_init := False\<rparr>)
        (boot exact_ops Map.empty [])) ''20240509.csv'' = Some (''Time, Current (mA)'' @ CRLF)"
proof -
  let ?hw = "all_ok\<lparr>ina219_init := False\<rparr>"
  have h: "rtc_begin ?hw" "SD_begin ?hw" "\<not> ina219_init ?hw"
    by (simp_all add: all_ok_def)
  have n: "dated_name (rtc_now all_ok) ''YYYYMMDD.csv'' = ''20240509.csv''"
    by (simp add: all_ok_def some_dated_name)
  from sensor_fault_leaves_header [OF h, of exact_ops Map.empty "[]"]
  have "halted (sketch_setup SolarFinalVer2 ?hw (boot exact_ops Map.empty []))"
    and "sd (sketch_setup SolarFinalVer2 ?hw (boot exact_ops Map.empty [])) =
        Map.empty(dated_name (rtc_now ?hw) ''YYYYMMDD.csv'' \<mapsto>
          (if contents Map.empty (dated_name (rtc_now ?hw) ''YYYYMMDD.csv'') = []
           then header @ CRLF
           else contents Map.empty (dated_name (rtc_now ?hw) ''YYYYMMDD.csv'')))"
    by blast+
  then show ?thesis
    using h by (simp add: n contents_def header_def)
qed

lemma sketch_setup_halted:
  "halted (sketch_setup sk hw (boot fl disk tr)) =
     (case sk of
        SolarFinalVer2 \<Rightarrow> \<not> rtc_begin hw \<or> \<not> SD_begin hw \<or> \<not> ina219_init hw
      | solardatalog \<Rightarrow>
          \<not> ina219_init hw \<or> \<not> rtc_begin hw \<or> \<not> rtc_isrunning hw \<or> \<not> SD_begin hw)"
  by (cases sk) (simp_all add: sketch_setup_def setup_v2_halted setup_dl_halted boot_fields)

lemma sketch_setup_no_rows:
  "filter is_File_print (new_events (boot fl disk tr) (sketch_setup sk hw (boot fl disk tr))) = []"
  by (cases sk) (simp_all add: sketch_setup_def setup_v2_no_rows setup_dl_no_rows boot_fields)

lemma sketch_setup_adjust:
  "filter is_rtc_adjust (new_events (boot fl disk tr) (sketch_setup sk hw (boot fl disk tr))) =
     (if rtc_begin hw \<and> \<not> rtc_isrunning hw \<and> (sk = SolarFinalVer2 \<or> ina219_init hw)
      then [Ev_rtc_adjust (build_time hw)] else [])"
  by (cases sk) (simp_all add: sketch_setup_def setup_v2_adjust setup_dl_adjust boot_fields)

lemma sketch_setup_sensor_message:
  assumes "\<not> ina219_init hw" and "sk = solardatalog \<or> rtc_begin hw \<and> SD_begin hw"
  shows "Ev_Serial_println ''Error : INA219 not connected!''
           \<in> set (new_events (boot fl disk tr) (sketch_setup sk hw (boot fl disk tr)))"
  using assms
  by (cases sk)
     (simp_all add: sketch_setup_def setup_v2_sensor_message setup_dl_sensor_message boot_fields)

text \<open>
  Claim C5. When the sensor does not answer the check in \<open>setup()\<close>, the program prints the
  message about the INA219 and halts; however often \<open>loop()\<close> would have been called, the
  power cycle ends halted, no call of \<open>file.print\<close> is made (rows are written by
  \<open>file.print\<close> only), and every file on the card is as before, or was empty and holds only
  the header line. In SolarFinalVer2.ino the check of the sensor is reached when clock and
  card have answered; in solardatalog.ino it is the first check.
\<close>

theorem sensor_fault_halts:
  assumes "\<not> ina219_init hw" and "sk = solardatalog \<or> rtc_begin hw \<and> SD_begin hw"
  shows "halted (power_cycle sk fl cfg hw inps disk tr)
    \<and> trace (power_cycle sk fl cfg hw inps disk tr) =
        tr @ drop (length tr) (trace (power_cycle sk fl cfg hw inps disk tr))
    \<and> Ev_Serial_println ''Error : INA219 not connected!''
        \<in> set (drop (length tr) (trace (power_cycle sk fl cfg hw inps disk tr)))
    \<and> filter is_File_print (drop (length tr) (trace (power_cycle sk fl cfg hw inps disk tr))) = []
    \<and> (\<forall>n. contents (sd (power_cycle sk fl cfg hw inps disk tr)) n = contents disk n
           \<or> contents disk n = []
             \<and> contents (sd (power_cycle sk fl cfg hw inps disk tr)) n = header @ CRLF)"
proof -
  let ?s0 = "boot fl disk tr"
  let ?s1 = "sketch_setup sk hw ?s0"
  have h: "halted ?s1"
    using assms(1) by (cases sk) (simp_all add: sketch_setup_halted)
  then have p: "power_cycle sk fl cfg hw inps disk tr = ?s1"
    by (rule power_cycle_halted)
  have ok: "\<And>n. setup_ok n ?s0 ?s1"
    by (rule sketch_setup_ok)
  have t: "trace ?s1 = tr @ new_events ?s0 ?s1"
    using ok [of "[]"] by (simp add: setup_ok_def boot_fields)
  then have d: "drop (length tr) (trace ?s1) = new_events ?s0 ?s1"
    by simp
  have c: "\<forall>n. contents (sd ?s1) n = contents disk n
           \<or> contents disk n = [] \<and> contents (sd ?s1) n = header @ CRLF"
  proof
    fix n
    show "contents (sd ?s1) n = contents disk n
           \<or> contents disk n = [] \<and> contents (sd ?s1) n = header @ CRLF"
      using ok [of n] by (simp add: setup_ok_def boot_fields)
  qed
  have m: "Ev_Serial_println ''Error : INA219 not connected!'' \<in> set (new_events ?s0 ?s1)"
    using assms by (rule sketch_setup_sensor_message)
  have r: "filter is_File_print (new_events ?s0 ?s1) = []"
    by (rule sketch_setup_no_rows)
  show ?thesis
    unfolding p d using h t m r c by simp
qed

lemma all_ok_fields:
  "rtc_begin all_ok" "rtc_isrunning all_ok" "SD_begin all_ok" "ina219_init all_ok"
  "rtc_now all_ok = some_date" "build_time all_ok = some_date"
  by (simp_all add: all_ok_def)

theorem sensor_fault_halts_witness:
  "\<not> ina219_init (all_ok\<lparr>ina219_init := False\<rparr>)
   \<and> (solardatalog = solardatalog
        \<or> rtc_begin (all_ok\<lparr>ina219_init := False\<rparr>) \<and> SD_begin (all_ok\<lparr>ina219_init := False\<rparr>))
   \<and> halted (power_cycle solardatalog exact_ops \<lparr>frequency = 20, averaged = False, datapoints = 10\<rparr>
        (all_ok\<lparr>ina219_init := False\<rparr>) [sample 1, sample 2] Map.empty [])
   \<and> filter is_File_print (trace (power_cycle solardatalog exact_ops
        \<lparr>frequency = 20, averaged = False, datapoints = 10\<rparr>
        (all_ok\<lparr>ina219_init := False\<rparr>) [sample 1, sample 2] Map.empty [])) = []"
proof -
  let ?hw = "all_ok\<lparr>ina219_init := False\<rparr>"
  have h1: "\<not> ina219_init ?hw"
    by simp
  have h2: "solardatalog = solardatalog \<or> rtc_begin ?hw \<and> SD_begin ?hw"
    by simp
  from sensor_fault_halts [OF h1 h2, of exact_ops
      "\<lparr>frequency = 20, averaged = False, datapoints = 10\<rparr>" "[sample 1, sample 2]" Map.empty "[]"]
  show ?thesis
    by simp
qed

text \<open>
  Claim C6. When the clock answers but is not running (and, in solardatalog.ino, the
  sensor has answered, so that the check of the clock is reached), the clock is set to the
  build time exactly once in the whole power cycle. SolarFinalVer2.ino then goes on: it
  halts only if the card or the sensor fails. solardatalog.ino halts.
\<close>

theorem clock_reset_once:
  assumes "rtc_begin hw" and "\<not> rtc_isrunning hw" and "ina219_init hw"
  shows "filter is_rtc_adjust (drop (length tr) (trace (power_cycle sk fl cfg hw inps disk tr))) =
           [Ev_rtc_adjust (build_time hw)]
    \<and> halted (sketch_setup sk hw (boot fl disk tr)) = (sk = solardatalog \<or> \<not> SD_begin hw)"
proof -
  let ?s0 = "boot fl disk tr"
  let ?s1 = "sketch_setup sk hw ?s0"
  have a: "filter is_rtc_adjust (new_events ?s0 ?s1) = [Ev_rtc_adjust (build_time hw)]"
    using assms by (simp add: sketch_setup_adjust)
  have "step_ok [] ?s1 (power_cycle sk fl cfg hw inps disk tr)"
    by (rule power_cycle_step_ok)
  then have b: "filter is_rtc_adjust (new_events ?s1 (power_cycle sk fl cfg hw inps disk tr)) = []"
    by (simp add: step_ok_def)
  have c: "halted ?s1 = (sk = solardatalog \<or> \<not> SD_begin hw)"
    using assms by (cases sk) (simp_all add: sketch_setup_halted)
  show ?thesis
    using a b c by (simp add: power_cycle_events)
qed

theorem clock_reset_once_witness:
  "rtc_begin (all_ok\<lparr>rtc_isrunning := False\<rparr>) \<and> \<not> rtc_isrunning (all_ok\<lparr>rtc_isrunning := False\<rparr>)
   \<and> ina219_init (all_ok\<lparr>rtc_isrunning := False\<rparr>)
   \<and> filter is_rtc_adjust (trace (power_cycle SolarFinalVer2 exact_ops
        \<lparr>frequency = 5, averaged = False, datapoints = 10\<rparr>
        (all_ok\<lparr>rtc_isrunning := False\<rparr>) [sample 1, sample 2] Map.empty [])) =
       [Ev_rtc_adjust some_date]
   \<and> \<not> halted (sketch_setup SolarFinalVer2 (all_ok\<lparr>rtc_isrunning := False\<rparr>)
        (boot exact_ops Map.empty []))"
proof -
  let ?hw = "all_ok\<lparr>rtc_isrunning := False\<rparr>"
  have h: "rtc_begin ?hw" "\<not> rtc_isrunning ?hw" "ina219_init ?hw"
    by (simp_all add: all_ok_fields)
  from clock_reset_once [OF h, of "[]" SolarFinalVer2 exact_ops
      "\<lparr>frequency = 5, averaged = False, datapoints = 10\<rparr>" "[sample 1, sample 2]" Map.empty]
  show ?thesis
    using h by (simp add: all_ok_fields)
qed

section \<open>The file handle\<close>

lemma StoreData_events_open: "filter is_SD_open (StoreData_events fl n t v) = []"
  by (simp add: StoreData_events_def)

lemma blink_events_open: "filter is_SD_open (blink_events freq k) = []"
  by (induction k) (simp_all add: blink_events_Suc, simp_all add: blink_events_def blink_round_def)

lemma loop_v2_not_halted: "\<not> halted s \<Longrightarrow> \<not> halted (loop_v2 fl cfg inp s)"
  by (cases "averaged cfg"; cases "counter s + 1 = datapoints cfg")
     (simp_all add: loop_v2_plain loop_v2_accumulate loop_v2_emit)

lemma loop_v2_opens:
  assumes "\<not> halted s"
  shows "filter is_SD_open (new_events s (loop_v2 fl cfg inp s)) = [Ev_SD_open (filename s)]"
  using assms
  by (cases "averaged cfg"; cases "counter s + 1 = datapoints cfg")
     (simp_all add: loop_v2_plain loop_v2_accumulate loop_v2_emit new_events_def
        StoreData_events_open)

lemma loop_dl_opens:
  assumes "\<not> halted s"
  shows "filter is_SD_open (new_events s (loop_dl fl cfg inp s)) =
           (if halted (loop_dl fl cfg inp s) then [] else [Ev_SD_open (filename s)])"
  using assms
  by (cases "loop_ina219_init inp"; cases "loop_SD_begin inp")
     (simp_all add: loop_dl_no_sensor loop_dl_no_card loop_dl_ok new_events_def
        StoreData_events_open blink_events_open)

lemma sketch_loop_opens:
  assumes "\<not> halted s"
  shows "filter is_SD_open (new_events s (sketch_loop sk fl cfg inp s)) =
           (if halted (sketch_loop sk fl cfg inp s) then [] else [Ev_SD_open (filename s)])"
  using assms
  by (cases sk) (simp_all add: sketch_loop_def loop_v2_opens loop_v2_not_halted loop_dl_opens)

lemma run_loop_append:
  "run_loop sk fl cfg (xs @ ys) s = run_loop sk fl cfg ys (run_loop sk fl cfg xs s)"
  by (induction xs arbitrary: s) simp_all

lemma power_cycle_snoc:
  "power_cycle sk fl cfg hw (inps @ [inp]) disk tr =
     (if halted (power_cycle sk fl cfg hw inps disk tr)
      then power_cycle sk fl cfg hw inps disk tr
      else sketch_loop sk fl cfg inp (power_cycle sk fl cfg hw inps disk tr))"
  by (simp add: power_cycle_def run_loop_append)

text \<open>
  Claim C8. Take the state after \<open>setup()\<close> and any number of calls of \<open>loop()\<close>, and let
  \<open>loop()\<close> be called once more. No file is open before the call and none after it. The
  calls made in between follow the discipline of the file handle, started and ended with
  no file open: a file is written only between an \<open>SD.open\<close> and the \<open>close\<close> of this same
  call of \<open>loop()\<close>, and every \<open>delay\<close> comes while no file is open. Unless the program
  halts, the call opens the file of the session exactly once.
\<close>

theorem file_open_only_within_iteration:
  "file_handle (power_cycle sk fl cfg hw inps disk tr) = None
   \<and> file_handle (power_cycle sk fl cfg hw (inps @ [inp]) disk tr) = None
   \<and> trace (power_cycle sk fl cfg hw (inps @ [inp]) disk tr) =
       trace (power_cycle sk fl cfg hw inps disk tr) @
       new_events (power_cycle sk fl cfg hw inps disk tr)
         (power_cycle sk fl cfg hw (inps @ [inp]) disk tr)
   \<and> walk False (new_events (power_cycle sk fl cfg hw inps disk tr)
         (power_cycle sk fl cfg hw (inps @ [inp]) disk tr)) = Some False
   \<and> filter is_SD_open (new_events (power_cycle sk fl cfg hw inps disk tr)
         (power_cycle sk fl cfg hw (inps @ [inp]) disk tr)) =
       (if halted (power_cycle sk fl cfg hw (inps @ [inp]) disk tr) then []
        else [Ev_SD_open (filename (power_cycle sk fl cfg hw inps disk tr))])"
proof -
  let ?s = "power_cycle sk fl cfg hw inps disk tr"
  let ?s' = "power_cycle sk fl cfg hw (inps @ [inp]) disk tr"
  have "step_ok [] (sketch_setup sk hw (boot fl disk tr)) ?s"
    by (rule power_cycle_step_ok)
  then have closed: "file_handle ?s = None"
    by (simp add: step_ok_def)
  show ?thesis
  proof (cases "halted ?s")
    case True
    then have "?s' = ?s"
      by (simp add: power_cycle_snoc)
    then show ?thesis
      using True closed by simp
  next
    case False
    then have eq: "?s' = sketch_loop sk fl cfg inp ?s"
      by (simp add: power_cycle_snoc)
    have "step_ok [] ?s (sketch_loop sk fl cfg inp ?s)"
      using False closed by (rule sketch_loop_step_ok)
    then have ok: "step_ok [] ?s ?s'"
      by (simp only: eq)
    have "filter is_SD_open (new_events ?s (sketch_loop sk fl cfg inp ?s)) =
           (if halted (sketch_loop sk fl cfg inp ?s) then [] else [Ev_SD_open (filename ?s)])"
      using False by (rule sketch_loop_opens)
    then have opens: "filter is_SD_open (new_events ?s ?s') =
           (if halted ?s' then [] else [Ev_SD_open (filename ?s)])"
      by (simp only: eq)
    from ok have "file_handle ?s' = None" and "trace ?s' = trace ?s @ new_events ?s ?s'"
      and "walk False (new_events ?s ?s') = Some False"
      by (simp_all add: step_ok_def)
    with closed opens show ?thesis
      by blast
  qed
qed

section \<open>The header line\<close>






section \<open>The waits of one call of loop()\<close>

lemma to_ulong_nonneg:
  assumes "0 \<le> sint a"
  shows "unat (to_ulong a) = nat (sint a)"
proof -
  have "sint a < 2 ^ 15"
    using sint_lt [of a] by simp
  then have "sint a < 2 ^ 32"
    by simp
  then have t: "take_bit 32 (sint a) = sint a"
    using assms by (simp add: take_bit_int_eq_self)
  have "unat (to_ulong a) = unat (word_of_int (sint a) :: 32 word)"
    by (simp only: to_ulong_def scast_eq)
  also have "\<dots> = nat (take_bit 32 (sint a))"
    by (subst unsigned_of_int) simp
  finally show ?thesis
    by (simp only: t)
qed

lemma sint_times_500:
  fixes f :: int16
  assumes "1 \<le> sint f" and "sint f \<le> 65"
  shows "sint (f * 500) = sint f * 500"
proof -
  have "sint (f * 500) = signed_take_bit 15 (sint f * sint (500 :: 16 word))"
    by (simp add: sint_word_ariths)
  also have "sint (500 :: 16 word) = 500"
    by simp
  also have "signed_take_bit 15 (sint f * 500) = sint f * 500"
    using assms by (intro signed_take_bit_int_eq_self) simp_all
  finally show ?thesis .
qed

lemma half_period_v2:
  fixes f :: int16
  assumes "1 \<le> sint f" and "sint f \<le> 65"
  shows "unat (to_ulong (f * 500)) = nat (sint f) * 500"
proof -
  have "sint (f * 500) = sint f * 500"
    using assms by (rule sint_times_500)
  moreover from this have "0 \<le> sint (f * 500)"
    using assms by simp
  ultimately show ?thesis
    using assms by (simp add: to_ulong_nonneg nat_mult_distrib)
qed

lemma int16_div_self:
  fixes f :: int16
  assumes "0 < sint f"
  shows "int16_div f f = 1"
  using assms by (simp add: int16_div_def signed_divide_int_def)

lemma second_dl: "unat (to_ulong (1 * 1000 :: int16)) = 1000"
  by (simp add: to_ulong_nonneg)

lemma int16_div_2:
  fixes f :: int16
  assumes "0 \<le> sint f"
  shows "sint (int16_div f 2) = sint f div 2"
proof -
  have "sint f < 2 ^ 15"
    using sint_lt [of f] by simp
  then have r: "- (2 ^ 15) \<le> sint f div 2" "sint f div 2 < 2 ^ 15"
    using assms by simp_all
  have "sint f sdiv sint (2 :: 16 word) = sint f div 2"
    using assms by (simp add: signed_divide_int_def sgn_if)
  then have "sint (int16_div f 2) = signed_take_bit 15 (sint f div 2)"
    by (simp add: int16_div_def sint_sbintrunc')
  also have "\<dots> = sint f div 2"
    using r by (rule signed_take_bit_int_eq_self)
  finally show ?thesis .
qed

lemma delay_total_Cons: "delay_total (e # es) = delay_ms e + delay_total es"
  by (simp add: delay_total_def)

lemma loop_v2_delay:
  assumes "\<not> halted s"
  shows "trace (loop_v2 fl cfg inp s) = trace s @ new_events s (loop_v2 fl cfg inp s)
    \<and> delay_total (new_events s (loop_v2 fl cfg inp s)) =
        2 * unat (to_ulong (frequency cfg * 500))"
  using assms
  by (cases "averaged cfg"; cases "counter s + 1 = datapoints cfg")
     (simp_all add: loop_v2_plain loop_v2_accumulate loop_v2_emit new_events_def
        delay_total_Cons StoreData_events_delay)

lemma loop_dl_delay:
  assumes "\<not> halted s" and "loop_ina219_init inp" and "loop_SD_begin inp"
  shows "trace (loop_dl fl cfg inp s) = trace s @ new_events s (loop_dl fl cfg inp s)
    \<and> delay_total (new_events s (loop_dl fl cfg inp s)) =
        nat (sint (int16_div (frequency cfg) 2)) *
          (2 * unat (to_ulong (int16_div (frequency cfg) (frequency cfg) * 1000)))"
  using assms
  by (simp add: loop_dl_ok new_events_def delay_total_Cons StoreData_events_delay
      blink_events_delay)

text \<open>
  Where the waits are as long as the frequency says. In SolarFinalVer2.ino, for a
  frequency from 1 to 65 (up to there \<open>frequency*500\<close> fits the 16-bit \<open>int\<close>), and in
  solardatalog.ino, for a positive even frequency and a call of \<open>loop()\<close> in which sensor
  and card answer, the waits of one call of \<open>loop()\<close> add up to frequency times 1000
  milliseconds.
\<close>

theorem delays_per_iteration:
  assumes "\<not> halted s" and "0 < sint (frequency cfg)"
    and "sk = SolarFinalVer2 \<and> sint (frequency cfg) \<le> 65
       \<or> sk = solardatalog \<and> even (sint (frequency cfg))
           \<and> loop_ina219_init inp \<and> loop_SD_begin inp"
  shows "trace (sketch_loop sk fl cfg inp s) = trace s @ new_events s (sketch_loop sk fl cfg inp s)
    \<and> delay_total (new_events s (sketch_loop sk fl cfg inp s)) =
        nat (sint (frequency cfg)) * 1000"
  using assms(3)
proof (elim disjE conjE)
  assume sk: "sk = SolarFinalVer2" and le: "sint (frequency cfg) \<le> 65"
  have "unat (to_ulong (frequency cfg * 500)) = nat (sint (frequency cfg)) * 500"
    using assms(2) le by (intro half_period_v2) simp_all
  then show ?thesis
    using loop_v2_delay [OF assms(1), of fl cfg inp] by (simp add: sk sketch_loop_def)
next
  assume sk: "sk = solardatalog" and ev: "even (sint (frequency cfg))"
    and ok: "loop_ina219_init inp" "loop_SD_begin inp"
  have one: "int16_div (frequency cfg) (frequency cfg) = 1"
    using assms(2) by (rule int16_div_self)
  have "sint (int16_div (frequency cfg) 2) = sint (frequency cfg) div 2"
    using assms(2) by (intro int16_div_2) simp
  then have k: "nat (sint (int16_div (frequency cfg) 2)) * 2 = nat (sint (frequency cfg))"
    using ev assms(2) by (auto elim!: evenE)
  have "delay_total (new_events s (loop_dl fl cfg inp s)) =
      nat (sint (int16_div (frequency cfg) 2)) * (2 * 1000)"
    using loop_dl_delay [OF assms(1) ok, of fl cfg] by (simp only: one second_dl)
  also have "\<dots> = (nat (sint (int16_div (frequency cfg) 2)) * 2) * 1000"
    by simp
  also have "\<dots> = nat (sint (frequency cfg)) * 1000"
    by (simp only: k)
  finally show ?thesis
    using loop_dl_delay [OF assms(1) ok, of fl cfg] by (simp add: sk sketch_loop_def)
qed

lemma setup_all_ok_running:
  "\<not> halted (sketch_setup sk all_ok (boot fl disk tr))"
  by (cases sk) (simp_all add: sketch_setup_halted all_ok_fields)

theorem delays_per_iteration_witness:
  "\<not> halted (sketch_setup solardatalog all_ok (boot exact_ops Map.empty []))
   \<and> 0 < sint (frequency \<lparr>frequency = 20, averaged = False, datapoints = 10\<rparr>)
   \<and> even (sint (frequency \<lparr>frequency = 20, averaged = False, datapoints = 10\<rparr>))
   \<and> loop_ina219_init (sample 1) \<and> loop_SD_begin (sample 1)
   \<and> delay_total (new_events (sketch_setup solardatalog all_ok (boot exact_ops Map.empty []))
        (sketch_loop solardatalog exact_ops \<lparr>frequency = 20, averaged = False, datapoints = 10\<rparr>
           (sample 1) (sketch_setup solardatalog all_ok (boot exact_ops Map.empty [])))) = 20000"
proof -
  let ?s = "sketch_setup solardatalog all_ok (boot exact_ops Map.empty [])"
  let ?cfg = "\<lparr>frequency = 20, averaged = False, datapoints = 10\<rparr>"
  have h1: "\<not> halted ?s"
    by (rule setup_all_ok_running)
  have h2: "0 < sint (frequency ?cfg)"
    by simp
  have h3: "solardatalog = SolarFinalVer2 \<and> sint (frequency ?cfg) \<le> 65
       \<or> solardatalog = solardatalog \<and> even (sint (frequency ?cfg))
           \<and> loop_ina219_init (sample 1) \<and> loop_SD_begin (sample 1)"
    by (simp add: sample_def)
  from delays_per_iteration [OF h1 h2 h3, of exact_ops]
  have "delay_total (new_events ?s (sketch_loop solardatalog exact_ops ?cfg (sample 1) ?s)) =
      nat (sint (frequency ?cfg)) * 1000"
    by blast
  then have "delay_total (new_events ?s (sketch_loop solardatalog exact_ops ?cfg (sample 1) ?s)) =
      20000"
    by simp
  with h1 h2 h3 show ?thesis
    by simp
qed

text \<open>
  With the odd frequency 5, one call of \<open>loop()\<close> of solardatalog.ino waits 4000
  milliseconds, not 5000: the blinking loop runs \<open>frequency/2\<close> times. The sketch asks
  for an even number in the comment of \<open>frequency\<close>.
\<close>

theorem delays_odd_frequency_counterexample:
  "delay_total (new_events (sketch_setup solardatalog all_ok (boot exact_ops Map.empty []))
     (sketch_loop solardatalog exact_ops \<lparr>frequency = 5, averaged = False, datapoints = 10\<rparr>
        (sample 1) (sketch_setup solardatalog all_ok (boot exact_ops Map.empty [])))) = 4000
   \<and> nat (sint (frequency \<lparr>frequency = 5, averaged = False, datapoints = 10\<rparr>)) * 1000 = 5000"
proof -
  let ?s = "sketch_setup solardatalog all_ok (boot exact_ops Map.empty [])"
  let ?cfg = "\<lparr>frequency = 5, averaged = False, datapoints = 10\<rparr>"
  have h1: "\<not> halted ?s"
    by (rule setup_all_ok_running)
  have ok: "loop_ina219_init (sample 1)" "loop_SD_begin (sample 1)"
    by (simp_all add: sample_def)
  have one: "int16_div (frequency ?cfg) (frequency ?cfg) = 1"
    by (intro int16_div_self) simp
  have "sint (int16_div (frequency ?cfg) 2) = sint (frequency ?cfg) div 2"
    by (intro int16_div_2) simp
  then have k: "nat (sint (int16_div (frequency ?cfg) 2)) = 2"
    by simp
  have "delay_total (new_events ?s (loop_dl exact_ops ?cfg (sample 1) ?s)) =
      nat (sint (int16_div (frequency ?cfg) 2)) *
          (2 * unat (to_ulong (int16_div (frequency ?cfg) (frequency ?cfg) * 1000)))"
    using loop_dl_delay [OF h1 ok, of exact_ops ?cfg] by blast
  also have "\<dots> = 4000"
    by (simp only: one second_dl k)
  finally show ?thesis
    by (simp add: sketch_loop_def)
qed

section \<open>Averaging in SolarFinalVer2.ino\<close>

lemma setup_v2_all_ok_fields:
  assumes "\<not> halted s" and "rtc_begin hw" and "rtc_isrunning hw" and "SD_begin hw"
    and "ina219_init hw" and "contents (sd s) (dated_name (rtc_now hw) (filename s)) = []"
  shows "\<not> halted (setup_v2 hw s)"
    and "filename (setup_v2 hw s) = dated_name (rtc_now hw) (filename s)"
    and "counter (setup_v2 hw s) = counter s"
    and "averagedcurrent_mA (setup_v2 hw s) = averagedcurrent_mA s"
    and "sd (setup_v2 hw s) = (sd s)(dated_name (rtc_now hw) (filename s) \<mapsto> header @ CRLF)"
  using assms by (simp_all add: setup_v2_def setup_simps)

lemma loop_v2_accumulate_fields:
  assumes "\<not> halted s" and "averaged cfg" and "counter s + 1 \<noteq> datapoints cfg"
  shows "\<not> halted (loop_v2 fl cfg inp s)"
    and "filename (loop_v2 fl cfg inp s) = filename s"
    and "counter (loop_v2 fl cfg inp s) = counter s + 1"
    and "averagedcurrent_mA (loop_v2 fl cfg inp s) =
           fadd fl (averagedcurrent_mA s) (getCurrent_mA inp)"
    and "contents (sd (loop_v2 fl cfg inp s)) (filename s) = contents (sd s) (filename s)"
  using assms by (simp_all add: loop_v2_accumulate contents_upd)

lemma loop_v2_emit_fields:
  assumes "\<not> halted s" and "averaged cfg" and "counter s + 1 = datapoints cfg"
  shows "\<not> halted (loop_v2 fl cfg inp s)"
    and "filename (loop_v2 fl cfg inp s) = filename s"
    and "counter (loop_v2 fl cfg inp s) = 0"
    and "averagedcurrent_mA (loop_v2 fl cfg inp s) =
           fadd fl (averagedcurrent_mA s) (getCurrent_mA inp)"
    and "contents (sd (loop_v2 fl cfg inp s)) (filename s) =
           contents (sd s) (filename s) @ row fl (loop_rtc_now inp)
             (fdiv fl (fadd fl (averagedcurrent_mA s) (getCurrent_mA inp))
                (float_of_int fl (sint (datapoints cfg))))"
  using assms by (simp_all add: loop_v2_emit contents_upd)

lemma row_some_date: "row exact_ops some_date v = ''9:5:3,'' @ printFloat2 v @ '','' @ CRLF"
  by (simp add: row_def hms_def some_date_def String_of_cases digit_char_simps exact_ops_def)

lemma exact_ops_fields:
  "fzero exact_ops = 0" "fadd exact_ops a b = a + b" "fdiv exact_ops a b = a / b"
  "float_of_int exact_ops k = of_int k"
  by (simp_all add: exact_ops_def)

lemma sample_fields: "getCurrent_mA (sample v) = v" "loop_rtc_now (sample v) = some_date"
  by (simp_all add: sample_def)

text \<open>
  The states of a run of SolarFinalVer2.ino that averages two readings, on an empty card,
  with the readings 1, 1, 3, 3.
\<close>

lemma averaging_run:
  fixes cfg :: config
  defines "cfg \<equiv> \<lparr>frequency = 5, averaged = True, datapoints = 2\<rparr>"
  defines "s0 \<equiv> sketch_setup SolarFinalVer2 all_ok (boot exact_ops Map.empty [])"
  defines "s1 \<equiv> loop_v2 exact_ops cfg (sample 1) s0"
  defines "s2 \<equiv> loop_v2 exact_ops cfg (sample 1) s1"
  defines "s3 \<equiv> loop_v2 exact_ops cfg (sample 3) s2"
  defines "s4 \<equiv> loop_v2 exact_ops cfg (sample 3) s3"
  shows "power_cycle SolarFinalVer2 exact_ops cfg all_ok [sample 1, sample 1] Map.empty [] = s2"
    and "power_cycle SolarFinalVer2 exact_ops cfg all_ok
           [sample 1, sample 1, sample 3, sample 3] Map.empty [] = s4"
    and "counter s2 = 0" and "averagedcurrent_mA s2 = 2"
    and "contents (sd s2) ''20240509.csv'' =
           ''Time, Current (mA)'' @ CRLF @ ''9:5:3,1.00,'' @ CRLF"
    and "contents (sd s4) ''20240509.csv'' =
           ''Time, Current (mA)'' @ CRLF @ ''9:5:3,1.00,'' @ CRLF @ ''9:5:3,4.00,'' @ CRLF"
proof -
  have c: "averaged cfg" "datapoints cfg = 2"
    by (simp_all add: cfg_def)
  have e: "contents (sd (boot exact_ops Map.empty []))
      (dated_name (rtc_now all_ok) (filename (boot exact_ops Map.empty []))) = []"
    by (simp add: boot_fields contents_def)
  have s0: "s0 = setup_v2 all_ok (boot exact_ops Map.empty [])"
    by (simp add: s0_def sketch_setup_def)
  note f0 = setup_v2_all_ok_fields [OF boot_fields(1) all_ok_fields(1-4) e, folded s0]
  have h0: "\<not> halted s0" and n0: "filename s0 = ''20240509.csv''" and c0: "counter s0 = 0"
    and a0: "averagedcurrent_mA s0 = 0"
    and d0: "contents (sd s0) ''20240509.csv'' = ''Time, Current (mA)'' @ CRLF"
    using f0
    by (simp_all add: boot_fields all_ok_fields some_dated_name exact_ops_fields contents_upd
        header_def)
  have k0: "counter s0 + 1 \<noteq> datapoints cfg"
    by (simp add: c0 c)
  note f1 = loop_v2_accumulate_fields [OF h0 c(1) k0, of exact_ops "sample 1", folded s1_def]
  have h1: "\<not> halted s1" and n1: "filename s1 = ''20240509.csv''" and c1: "counter s1 = 1"
    and a1: "averagedcurrent_mA s1 = 1"
    and d1: "contents (sd s1) ''20240509.csv'' = ''Time, Current (mA)'' @ CRLF"
    using f1 by (simp_all add: n0 c0 a0 d0 exact_ops_fields sample_fields)
  have k1: "counter s1 + 1 = datapoints cfg"
    by (simp add: c1 c)
  note f2 = loop_v2_emit_fields [OF h1 c(1) k1, of exact_ops "sample 1", folded s2_def]
  have h2: "\<not> halted s2" and n2: "filename s2 = ''20240509.csv''" and c2: "counter s2 = 0"
    and a2: "averagedcurrent_mA s2 = 2"
    and d2: "contents (sd s2) ''20240509.csv'' =
           ''Time, Current (mA)'' @ CRLF @ ''9:5:3,1.00,'' @ CRLF"
    using f2
    by (simp_all add: n1 c1 a1 d1 c exact_ops_fields sample_fields row_some_date
        printFloat2_simps)
  have k2: "counter s2 + 1 \<noteq> datapoints cfg"
    by (simp add: c2 c)
  note f3 = loop_v2_accumulate_fields [OF h2 c(1) k2, of exact_ops "sample 3", folded s3_def]
  have h3: "\<not> halted s3" and n3: "filename s3 = ''20240509.csv''" and c3: "counter s3 = 1"
    and a3: "averagedcurrent_mA s3 = 5"
    and d3: "contents (sd s3) ''20240509.csv'' =
           ''Time, Current (mA)'' @ CRLF @ ''9:5:3,1.00,'' @ CRLF"
    using f3 by (simp_all add: n2 c2 a2 d2 exact_ops_fields sample_fields)
  have k3: "counter s3 + 1 = datapoints cfg"
    by (simp add: c3 c)
  note f4 = loop_v2_emit_fields [OF h3 c(1) k3, of exact_ops "sample 3", folded s4_def]
  have d4: "contents (sd s4) ''20240509.csv'' =
           ''Time, Current (mA)'' @ CRLF @ ''9:5:3,1.00,'' @ CRLF @ ''9:5:3,4.00,'' @ CRLF"
    using f4
    by (simp add: n3 c3 a3 d3 c exact_ops_fields sample_fields row_some_date
        printFloat2_simps)
  show "power_cycle SolarFinalVer2 exact_ops cfg all_ok [sample 1, sample 1] Map.empty [] = s2"
    using h0 h1
    by (simp add: power_cycle_def sketch_loop_def s0_def [symmetric] s1_def [symmetric]
        s2_def [symmetric])
  show "power_cycle SolarFinalVer2 exact_ops cfg all_ok
           [sample 1, sample 1, sample 3, sample 3] Map.empty [] = s4"
    using h0 h1 h2 h3
    by (simp add: power_cycle_def sketch_loop_def s0_def [symmetric] s1_def [symmetric]
        s2_def [symmetric] s3_def [symmetric] s4_def [symmetric])
  show "counter s2 = 0" by (rule c2)
  show "averagedcurrent_mA s2 = 2" by (rule a2)
  show "contents (sd s2) ''20240509.csv'' =
           ''Time, Current (mA)'' @ CRLF @ ''9:5:3,1.00,'' @ CRLF" by (rule d2)
  show "contents (sd s4) ''20240509.csv'' =
           ''Time, Current (mA)'' @ CRLF @ ''9:5:3,1.00,'' @ CRLF @ ''9:5:3,4.00,'' @ CRLF"
    by (rule d4)
qed

text \<open>
  The counter alone keeps its bounds: with averaging on and \<open>datapoints\<close> at least 1, a
  counter within \<open>0 \<le> counter < datapoints\<close> is within these bounds again after a call of
  \<open>loop()\<close>.
\<close>

lemma counter_within_bounds:
  assumes "\<not> halted s" and "averaged cfg" and "1 \<le> sint (datapoints cfg)"
    and "0 \<le> sint (counter s)" and "sint (counter s) < sint (datapoints cfg)"
  shows "0 \<le> sint (counter (loop_v2 fl cfg inp s))
    \<and> sint (counter (loop_v2 fl cfg inp s)) < sint (datapoints cfg)"
proof (cases "counter s + 1 = datapoints cfg")
  case True
  then show ?thesis
    using assms by (simp add: loop_v2_emit_fields)
next
  case False
  have "sint (datapoints cfg) < 2 ^ 15"
    using sint_lt [of "datapoints cfg"] by simp
  then have r: "- (2 ^ 15) \<le> sint (counter s) + 1" "sint (counter s) + 1 < 2 ^ 15"
    using assms(4,5) by simp_all
  have "sint (counter s + 1) = signed_take_bit 15 (sint (counter s) + 1)"
    by (simp add: sint_word_ariths)
  also have "\<dots> = sint (counter s) + 1"
    using r by (rule signed_take_bit_int_eq_self)
  finally have n: "sint (counter s + 1) = sint (counter s) + 1" .
  have "sint (counter s + 1) \<noteq> sint (datapoints cfg)"
    using False signed_word_eqI [of "counter s + 1" "datapoints cfg", where ?'a = int] by blast
  then have "sint (counter s) + 1 < sint (datapoints cfg)"
    using n assms(5) by simp
  then show ?thesis
    using assms(1,2,4) False n by (simp add: loop_v2_accumulate_fields)
qed

text \<open>
  Claim C1. The claim fails on the code: \<open>ReadData\<close> sets \<open>counter\<close> back to 0 after a row
  but leaves \<open>averagedcurrent_mA\<close> as it is. With two readings for an average and the
  readings 1, 1, 3, 3 the file holds the rows 1.00 and 4.00, where the mean of the third
  and fourth reading is 3. One row is written for every two readings, as claimed.
\<close>

theorem second_average_is_not_the_mean:
  "contents (sd (power_cycle SolarFinalVer2 exact_ops
       \<lparr>frequency = 5, averaged = True, datapoints = 2\<rparr> all_ok
       [sample 1, sample 1, sample 3, sample 3] Map.empty [])) ''20240509.csv'' =
     ''Time, Current (mA)'' @ CRLF @ ''9:5:3,1.00,'' @ CRLF @ ''9:5:3,4.00,'' @ CRLF"
  using averaging_run(2,6) by simp

text \<open>
  Claim C2. The claim fails on the code at the same place: after the row that ends the
  first pair of readings, \<open>counter\<close> is 0 again and \<open>averagedcurrent_mA\<close> is still 2, the sum
  of the readings so far.
\<close>

theorem running_total_is_not_reset:
  "counter (power_cycle SolarFinalVer2 exact_ops
       \<lparr>frequency = 5, averaged = True, datapoints = 2\<rparr> all_ok
       [sample 1, sample 1] Map.empty []) = 0
   \<and> averagedcurrent_mA (power_cycle SolarFinalVer2 exact_ops
       \<lparr>frequency = 5, averaged = True, datapoints = 2\<rparr> all_ok
       [sample 1, sample 1] Map.empty []) = 2"
  using averaging_run(1,3,4) by simp

text \<open>
  The number of rows is as specified: with averaging on and \<open>datapoints\<close> not 0, a run of
  \<open>loop()\<close> calls writes one row for every \<open>datapoints\<close> readings.
\<close>

lemma row_count_append [simp]: "row_count (xs @ ys) = row_count xs + row_count ys"
  by (simp add: row_count_def)

lemma row_count_Cons:
  "row_count (e # es) = (if is_row_end e then 1 else 0) + row_count es"
  by (simp add: row_count_def)

lemma row_count_Nil [simp]: "row_count [] = 0"
  by (simp add: row_count_def)

lemma StoreData_events_rows: "row_count (StoreData_events fl n t v) = 1"
  by (simp add: StoreData_events_def row_count_def)

lemma unat_counter_Suc:
  fixes c N :: int16
  assumes "unat c < unat N"
  shows "unat (c + 1) = unat c + 1"
proof -
  have "unat N < 2 ^ 16"
    using unsigned_less [of N] by simp
  then have "unat c + 1 < 2 ^ 16"
    using assms by simp
  then show ?thesis
    by (simp add: unat_word_ariths)
qed

lemma loop_v2_rows:
  assumes "\<not> halted s" and "averaged cfg" and "unat (counter s) < unat (datapoints cfg)"
  shows "trace (loop_v2 fl cfg inp s) = trace s @ new_events s (loop_v2 fl cfg inp s)
    \<and> \<not> halted (loop_v2 fl cfg inp s)
    \<and> row_count (new_events s (loop_v2 fl cfg inp s)) =
        (unat (counter s) + 1) div unat (datapoints cfg)
    \<and> unat (counter (loop_v2 fl cfg inp s)) =
        (unat (counter s) + 1) mod unat (datapoints cfg)"
proof (cases "counter s + 1 = datapoints cfg")
  case True
  have "unat (counter s) + 1 = unat (datapoints cfg)"
    using unat_counter_Suc [OF assms(3)] True by simp
  then show ?thesis
    using assms(1,2) True
    by (simp add: loop_v2_emit new_events_def StoreData_events_rows row_count_Cons)
next
  case False
  have n: "unat (counter s + 1) = unat (counter s) + 1"
    using assms(3) by (rule unat_counter_Suc)
  have "unat (counter s + 1) \<noteq> unat (datapoints cfg)"
    using False by (simp add: word_unat_eq_iff)
  then have "unat (counter s) + 1 < unat (datapoints cfg)"
    using n assms(3) by simp
  then show ?thesis
    using assms(1,2) False n
    by (simp add: loop_v2_accumulate new_events_def row_count_Cons)
qed

lemma one_row_per_datapoints:
  assumes "averaged cfg"
  shows "\<not> halted s \<Longrightarrow> unat (counter s) < unat (datapoints cfg) \<Longrightarrow>
    trace (run_loop SolarFinalVer2 fl cfg inps s) =
      trace s @ new_events s (run_loop SolarFinalVer2 fl cfg inps s)
    \<and> row_count (new_events s (run_loop SolarFinalVer2 fl cfg inps s)) =
        (unat (counter s) + length inps) div unat (datapoints cfg)
    \<and> unat (counter (run_loop SolarFinalVer2 fl cfg inps s)) =
        (unat (counter s) + length inps) mod unat (datapoints cfg)"
proof (induction inps arbitrary: s)
  case Nil
  then show ?case
    by simp
next
  case (Cons inp inps)
  let ?N = "unat (datapoints cfg)"
  let ?s1 = "loop_v2 fl cfg inp s"
  let ?s2 = "run_loop SolarFinalVer2 fl cfg inps ?s1"
  note one = loop_v2_rows [OF Cons.prems(1) assms Cons.prems(2), of fl inp]
  have pos: "0 < ?N"
    using Cons.prems(2) by simp
  have h1: "\<not> halted ?s1" and t1: "trace ?s1 = trace s @ new_events s ?s1"
    and r1: "row_count (new_events s ?s1) = (unat (counter s) + 1) div ?N"
    and c1: "unat (counter ?s1) = (unat (counter s) + 1) mod ?N"
    using one by blast+
  have b1: "unat (counter ?s1) < ?N"
    using pos by (simp add: c1)
  note rest = Cons.IH [OF h1 b1]
  have t2: "trace ?s2 = trace ?s1 @ new_events ?s1 ?s2"
    and r2: "row_count (new_events ?s1 ?s2) = (unat (counter ?s1) + length inps) div ?N"
    and c2: "unat (counter ?s2) = (unat (counter ?s1) + length inps) mod ?N"
    using rest by blast+
  have t: "trace ?s2 = trace s @ (new_events s ?s1 @ new_events ?s1 ?s2)"
    using t1 t2 by simp
  then have e: "new_events s ?s2 = new_events s ?s1 @ new_events ?s1 ?s2"
    by (rule new_events_appended)
  let ?x = "unat (counter s) + 1"
  have "(?x + length inps) div ?N = (?x div ?N * ?N + (?x mod ?N + length inps)) div ?N"
    by (simp only: add.assoc [symmetric] div_mult_mod_eq)
  also have "\<dots> = ?x div ?N + (?x mod ?N + length inps) div ?N"
    using pos by (simp only: div_mult_self3)
  finally have d: "?x div ?N + (?x mod ?N + length inps) div ?N = (?x + length inps) div ?N"
    by simp
  have m: "(?x mod ?N + length inps) mod ?N = (?x + length inps) mod ?N"
    by (rule mod_add_left_eq)
  have l: "unat (counter s) + length (inp # inps) = ?x + length inps"
    by simp
  have "row_count (new_events s ?s2) = ?x div ?N + (?x mod ?N + length inps) div ?N"
    by (simp only: e row_count_append r1 r2 c1)
  then have r: "row_count (new_events s ?s2) = (unat (counter s) + length (inp # inps)) div ?N"
    by (simp only: d l)
  have "unat (counter ?s2) = (?x mod ?N + length inps) mod ?N"
    by (simp only: c2 c1)
  then have c: "unat (counter ?s2) = (unat (counter s) + length (inp # inps)) mod ?N"
    by (simp only: m l)
  have run: "run_loop SolarFinalVer2 fl cfg (inp # inps) s = ?s2"
    using Cons.prems(1) by (simp add: sketch_loop_def)
  show ?case
    unfolding run using t e r c by simp
qed

section \<open>The waits of SolarFinalVer2.ino above 65 seconds\<close>

text \<open>
  \<open>frequency\<close> is an \<open>int\<close> of 16 bits, and so is \<open>frequency*500\<close>: with 66 the product
  33000 wraps to -32536, and \<open>delay\<close>, which takes an \<open>unsigned long\<close>, receives
  4294934760.
\<close>

lemma half_period_v2_overflow: "unat (to_ulong (66 * 500 :: int16)) = 4294934760"
proof -
  have "sint (66 * 500 :: int16) = signed_take_bit 15 (33000 :: int)"
    by simp
  also have "\<dots> = - 32536"
    by (simp add: signed_take_bit_eq_take_bit_shift take_bit_eq_mod)
  finally have s: "sint (66 * 500 :: int16) = - 32536" .
  have "unat (to_ulong (66 * 500 :: int16)) = unat (word_of_int (sint (66 * 500 :: int16)) :: 32 word)"
    by (simp only: to_ulong_def scast_eq)
  also have "\<dots> = unat (word_of_int (- 32536) :: 32 word)"
    by (simp only: s)
  also have "\<dots> = nat (take_bit 32 (- 32536 :: int))"
    by (subst unsigned_of_int) simp
  also have "\<dots> = 4294934760"
    by (simp add: take_bit_eq_mod)
  finally show ?thesis .
qed

text \<open>
  Claim C9. The claim fails on the code: with \<open>frequency = 66\<close> the two waits of one call
  of \<open>loop()\<close> of SolarFinalVer2.ino add up to 8589869520 milliseconds, where 66 times 1000
  is 66000. The sketch gives \<open>frequency\<close> in seconds and names no upper limit.
\<close>

theorem delays_overflow_at_66:
  "delay_total (new_events (sketch_setup SolarFinalVer2 all_ok (boot exact_ops Map.empty []))
     (sketch_loop SolarFinalVer2 exact_ops \<lparr>frequency = 66, averaged = False, datapoints = 10\<rparr>
        (sample 1) (sketch_setup SolarFinalVer2 all_ok (boot exact_ops Map.empty [])))) =
     8589869520
   \<and> nat (sint (frequency \<lparr>frequency = 66, averaged = False, datapoints = 10\<rparr>)) * 1000 = 66000"
proof -
  let ?s = "sketch_setup SolarFinalVer2 all_ok (boot exact_ops Map.empty [])"
  let ?cfg = "\<lparr>frequency = 66, averaged = False, datapoints = 10\<rparr>"
  have h: "\<not> halted ?s"
    by (rule setup_all_ok_running)
  have f: "frequency ?cfg * 500 = (66 * 500 :: int16)"
    by simp
  have "delay_total (new_events ?s (loop_v2 exact_ops ?cfg (sample 1) ?s)) =
      2 * unat (to_ulong (frequency ?cfg * 500))"
    using loop_v2_delay [OF h, of exact_ops ?cfg "sample 1"] by blast
  also have "\<dots> = 2 * 4294934760"
    by (simp only: f half_period_v2_overflow)
  also have "\<dots> = (8589869520 :: nat)"
    by simp
  finally show ?thesis
    by (simp add: sketch_loop_def)
qed

end
